theory Spec2Isabelle
  imports Complex_Main "HOL-Library.Word" "HOL-Library.Log_Nat"
begin

unbundle bit_operations_syntax

section \<open>Values read from the foreign records\<close>

text \<open>
  The structures of \<^verbatim>\<open>ryzen_monitor_gui.py\<close> are \<^verbatim>\<open>ctypes.Structure\<close>
  records of \<^verbatim>\<open>c_int\<close>, \<^verbatim>\<open>c_float\<close> and \<^verbatim>\<open>c_char\<close> arrays.  A
  \<^verbatim>\<open>c_int\<close> field is a 32-bit word that Python reads as a signed integer; a
  \<^verbatim>\<open>c_float\<close> field is a 32-bit word that Python reads as the float (a binary64
  value) denoting exactly the same number.
\<close>

type_synonym c_int = "32 word"
type_synonym c_float = "32 word"

text \<open>
  A Python float: not-a-number, an infinity with its sign (\<open>True\<close> is negative), the
  negative zero, or a finite number given exactly (\<open>PFin 0\<close> is the positive zero).
\<close>

datatype pyfloat = PNaN | PInf bool | PNegZero | PFin rat

datatype error = AttributeError | ValueError | OverflowError | ZeroDivisionError

definition pow2 :: "int \<Rightarrow> rat" where
  "pow2 k = (if 0 \<le> k then 2 ^ nat k else 1 / 2 ^ nat (- k))"

definition signed_fin :: "bool \<Rightarrow> rat \<Rightarrow> pyfloat" where
  "signed_fin neg a =
     (if a = 0 then (if neg then PNegZero else PFin 0)
      else PFin (if neg then - a else a))"

text \<open>Reading a \<^verbatim>\<open>c_float\<close> field: the IEEE 754 binary32 decoding of the word.\<close>

definition float_of_c_float :: "c_float \<Rightarrow> pyfloat" where
  "float_of_c_float w =
     (let neg = bit w 31;
          e = unat (drop_bit 23 w AND 0xFF);
          m = unat (w AND 0x7FFFFF)
      in if e = 255 then (if m = 0 then PInf neg else PNaN)
         else if e = 0 then signed_fin neg (of_nat m * pow2 (- 149))
         else signed_fin neg (of_nat (2 ^ 23 + m) * pow2 (int e - 150)))"

text \<open>Truthiness of a \<^verbatim>\<open>c_int\<close> field, and its value as a Python integer.\<close>

definition truthy :: "c_int \<Rightarrow> bool" where
  "truthy w = (w \<noteq> 0)"

definition int_of_c_int :: "c_int \<Rightarrow> int" where
  "int_of_c_int w = sint w"

section \<open>Python float operations used by the display code\<close>

text \<open>Comparisons of a float with the integer literal \<^verbatim>\<open>0\<close>.\<close>

fun float_gt0 :: "pyfloat \<Rightarrow> bool" where
  "float_gt0 PNaN = False"
| "float_gt0 (PInf neg) = (\<not> neg)"
| "float_gt0 PNegZero = False"
| "float_gt0 (PFin q) = (0 < q)"


text \<open>\<^verbatim>\<open>x != y\<close> on floats: a not-a-number differs from everything, itself included.\<close>

fun float_ne :: "pyfloat \<Rightarrow> pyfloat \<Rightarrow> bool" where
  "float_ne PNaN y = True"
| "float_ne x PNaN = True"
| "float_ne (PInf a) (PInf b) = (a \<noteq> b)"
| "float_ne (PInf a) y = True"
| "float_ne x (PInf b) = True"
| "float_ne PNegZero PNegZero = False"
| "float_ne PNegZero (PFin q) = (q \<noteq> 0)"
| "float_ne (PFin p) PNegZero = (p \<noteq> 0)"
| "float_ne (PFin p) (PFin q) = (p \<noteq> q)"

text \<open>Rounding to the nearest integer, a tie going to the even neighbour.\<close>

definition round_half_even :: "rat \<Rightarrow> int" where
  "round_half_even q =
     (let f = \<lfloor>q\<rfloor>; d = q - of_int f
      in if d < 1 / 2 then f
         else if 1 / 2 < d then f + 1
         else if even f then f else f + 1)"

text \<open>
  Rounding a positive magnitude to binary64: 53 significant bits above the smallest
  normal exponent, a fixed spacing of \<open>2\<^sup>-\<^sup>1\<^sup>0\<^sup>7\<^sup>4\<close> below it, and an infinity from
  \<open>2\<^sup>1\<^sup>0\<^sup>2\<^sup>4\<close> on.
\<close>

definition floor_log2 :: "rat \<Rightarrow> int" where
  "floor_log2 a =
     (let (p, q) = quotient_of a;
          k = int (floorlog 2 (nat p)) - int (floorlog 2 (nat q))
      in if pow2 k \<le> a then k else k - 1)"

definition round_binary64 :: "bool \<Rightarrow> rat \<Rightarrow> pyfloat" where
  "round_binary64 neg a =
     (if a = 0 then signed_fin neg 0
      else let e = max (floor_log2 a) (- 1022);
               ulp = pow2 (e - 52);
               r = of_int (round_half_even (a / ulp)) * ulp
           in if pow2 1024 \<le> r then PInf neg else signed_fin neg r)"

fun is_negative :: "pyfloat \<Rightarrow> bool" where
  "is_negative PNaN = False"
| "is_negative (PInf neg) = neg"
| "is_negative PNegZero = True"
| "is_negative (PFin q) = (q < 0)"

fun magnitude :: "pyfloat \<Rightarrow> rat" where
  "magnitude (PFin q) = \<bar>q\<bar>"
| "magnitude x = 0"

fun is_zero :: "pyfloat \<Rightarrow> bool" where
  "is_zero PNegZero = True"
| "is_zero (PFin q) = (q = 0)"
| "is_zero x = False"

fun is_inf :: "pyfloat \<Rightarrow> bool" where
  "is_inf (PInf neg) = True"
| "is_inf x = False"

text \<open>\<^verbatim>\<open>x / y\<close> on floats; Python raises on a zero divisor before anything else.\<close>

definition float_div :: "pyfloat \<Rightarrow> pyfloat \<Rightarrow> error + pyfloat" where
  "float_div x y =
     (let neg = (is_negative x \<noteq> is_negative y)
      in if is_zero y then Inl ZeroDivisionError
         else if x = PNaN \<or> y = PNaN then Inr PNaN
         else if is_inf x then (if is_inf y then Inr PNaN else Inr (PInf neg))
         else if is_inf y then Inr (signed_fin neg 0)
         else Inr (round_binary64 neg (magnitude x / magnitude y)))"

text \<open>\<^verbatim>\<open>x * n\<close> for a float and a positive integer literal \<open>n\<close>.\<close>

definition float_mul_int :: "pyfloat \<Rightarrow> int \<Rightarrow> pyfloat" where
  "float_mul_int x n =
     (case x of
        PNaN \<Rightarrow> PNaN
      | PInf neg \<Rightarrow> PInf neg
      | PNegZero \<Rightarrow> PNegZero
      | PFin q \<Rightarrow> round_binary64 (q < 0) (\<bar>q\<bar> * of_int n))"

text \<open>\<^verbatim>\<open>int(x)\<close>: truncation towards zero; it raises on a not-a-number and on an infinity.\<close>

fun int_of_float :: "pyfloat \<Rightarrow> error + int" where
  "int_of_float PNaN = Inl ValueError"
| "int_of_float (PInf neg) = Inl OverflowError"
| "int_of_float PNegZero = Inr 0"
| "int_of_float (PFin q) = Inr (if 0 \<le> q then \<lfloor>q\<rfloor> else \<lceil>q\<rceil>)"

section \<open>Formatting\<close>

definition digit_char :: "nat \<Rightarrow> char" where
  "digit_char d = char_of (48 + d)"

function dec :: "nat \<Rightarrow> string" where
  "dec n = (if n < 10 then [digit_char n] else dec (n div 10) @ [digit_char (n mod 10)])"
  by pat_completeness auto
termination
  by (relation "measure id") auto

declare dec.simps [simp del]

text \<open>\<^verbatim>\<open>str(n)\<close> of a Python integer, as an f-string renders \<^verbatim>\<open>{n}\<close>.\<close>

definition str_int :: "int \<Rightarrow> string" where
  "str_int n = (if n < 0 then ''-'' @ dec (nat (- n)) else dec (nat n))"

text \<open>The last \<open>k\<close> decimal digits of \<open>n\<close>, zero-padded on the left.\<close>

fun frac_digits :: "nat \<Rightarrow> nat \<Rightarrow> string" where
  "frac_digits 0 n = []"
| "frac_digits (Suc k) n = frac_digits k (n div 10) @ [digit_char (n mod 10)]"

text \<open>A magnitude scaled by \<open>10\<^sup>k\<close>, printed with \<open>k\<close> digits after the point.\<close>

definition fixed_digits :: "nat \<Rightarrow> nat \<Rightarrow> string" where
  "fixed_digits k n =
     dec (n div 10 ^ k) @ (if k = 0 then [] else ''.'' @ frac_digits k (n mod 10 ^ k))"

text \<open>
  \<^verbatim>\<open>f"{x:.kf}"\<close>: the decimal expansion of the float's exact value, correctly
  rounded to \<open>k\<close> places with ties to even; the sign is the float's own, also on a zero.
\<close>

fun format_f :: "nat \<Rightarrow> pyfloat \<Rightarrow> string" where
  "format_f k PNaN = ''nan''"
| "format_f k (PInf neg) = (if neg then ''-inf'' else ''inf'')"
| "format_f k PNegZero = ''-'' @ fixed_digits k 0"
| "format_f k (PFin q) =
     (if q < 0 then ''-'' else []) @ fixed_digits k (nat (round_half_even (\<bar>q\<bar> * 10 ^ k)))"

section \<open>The C structures\<close>

record CoreData =
  core_num :: c_int
  frequency :: c_float
  power' :: c_float
  voltage :: c_float
  temp :: c_float
  c0 :: c_float
  cc1 :: c_float
  cc6 :: c_float
  disabled :: c_int
  sleeping :: c_int

text \<open>
  A \<^verbatim>\<open>c_char\<close> array field reads as the bytes before its first NUL; the record
  keeps those bytes.
\<close>

record SystemData =
  cpu_name :: string
  codename :: string
  smu_fw_ver :: string
  cores :: c_int
  ccds :: c_int
  ccxs :: c_int
  cores_per_ccx :: c_int
  if_ver :: c_int
  enabled_cores_count :: c_int

record ConstraintsData =
  peak_temp :: c_float
  soc_temp :: c_float
  gfx_temp :: c_float
  vid_value :: c_float
  vid_limit :: c_float
  ppt_value :: c_float
  ppt_limit :: c_float
  ppt_apu_value :: c_float
  ppt_apu_limit :: c_float
  tdc_value :: c_float
  tdc_limit :: c_float
  tdc_actual :: c_float
  tdc_soc_value :: c_float
  tdc_soc_limit :: c_float
  edc_value :: c_float
  edc_limit :: c_float
  edc_soc_value :: c_float
  edc_soc_limit :: c_float
  thm_value :: c_float
  thm_limit :: c_float
  thm_soc_value :: c_float
  thm_soc_limit :: c_float
  thm_gfx_value :: c_float
  thm_gfx_limit :: c_float
  fit_value :: c_float
  fit_limit :: c_float

record MemoryData =
  fclk_freq :: c_float
  fclk_freq_eff :: c_float
  uclk_freq :: c_float
  memclk_freq :: c_float
  v_vddm :: c_float
  v_vddp :: c_float
  v_vddg :: c_float
  v_vddg_iod :: c_float
  v_vddg_ccd :: c_float
  coupled_mode :: c_int

record PowerData =
  total_core_power :: c_float
  vddcr_soc_power :: c_float
  io_vddcr_soc_power :: c_float
  gmi2_vddg_power :: c_float
  roc_power :: c_float
  l3_logic_power :: c_float
  l3_vddm_power :: c_float
  vddio_mem_power :: c_float
  iod_vddio_mem_power :: c_float
  ddr_vddp_power :: c_float
  ddr_phy_power :: c_float
  vdd18_power :: c_float
  io_display_power :: c_float
  io_usb_power :: c_float
  socket_power :: c_float
  package_power :: c_float
  vddcr_cpu_power :: c_float
  soc_telemetry_voltage :: c_float
  soc_telemetry_current :: c_float
  soc_telemetry_power :: c_float
  cpu_telemetry_voltage :: c_float
  cpu_telemetry_current :: c_float
  cpu_telemetry_power :: c_float

record GraphicsData =
  gfx_voltage :: c_float
  roc_power :: c_float
  gfx_temp :: c_float
  gfx_freq :: c_float
  gfx_freq_eff :: c_float
  gfx_busy :: c_float
  gfx_edc_lim :: c_float
  gfx_edc_residency :: c_float
  display_count :: c_float
  fps :: c_float
  dgpu_power :: c_float
  dgpu_freq_target :: c_float
  dgpu_gfx_busy :: c_float

record CalculatedStats =
  peak_core_frequency :: c_float
  peak_core_temp :: c_float
  peak_core_voltage :: c_float
  avg_core_voltage :: c_float
  avg_core_cc6 :: c_float
  total_core_power :: c_float
  peak_core_voltage_smu :: c_float
  package_cc6 :: c_float

text \<open>A freshly constructed \<^verbatim>\<open>CoreData()\<close>: every byte is zero.\<close>

definition zero_CoreData :: CoreData where
  "zero_CoreData =
     \<lparr>core_num = 0, frequency = 0, power' = 0, voltage = 0, temp = 0, c0 = 0, cc1 = 0,
      cc6 = 0, disabled = 0, sleeping = 0\<rparr>"

section \<open>The foreign library\<close>

text \<open>
  The shared library is outside the repository.  Each wrapper method takes, as an
  argument, what the foreign function answers on that call, and the wrapper's state
  records the foreign calls made so far (\<open>calls\<close>, the latest last).
\<close>

datatype lib_call =
  Ryzen_init | Ryzen_cleanup | Ryzen_get_system_info | Ryzen_read_data c_int

text \<open>
  What \<^verbatim>\<open>ryzen_read_data\<close> leaves behind: its return value, what it stored at each
  index of the per-core buffer it was handed (\<open>zero_CoreData\<close> where it stored
  nothing), and the five structures it filled.
\<close>

record read_answer =
  r_num_cores :: c_int
  r_cores :: "nat \<Rightarrow> CoreData"
  r_constraints :: ConstraintsData
  r_memory :: MemoryData
  r_power :: PowerData
  r_graphics :: GraphicsData
  r_stats :: CalculatedStats

text \<open>
  The four symbols the wrapper looks up in the shared object.  \<^verbatim>\<open>ctypes\<close> resolves a
  symbol when the attribute is read, and raises \<^verbatim>\<open>AttributeError\<close> when the shared
  object does not export it.
\<close>

datatype lib_symbol =
  Sym_ryzen_init | Sym_ryzen_cleanup | Sym_ryzen_get_system_info | Sym_ryzen_read_data

text \<open>
  What \<^verbatim>\<open>ctypes.CDLL(lib_path)\<close> does in \<^verbatim>\<open>load\<close>: it raises, or it opens a shared
  object that exports some of the four symbols.
\<close>

datatype load_outcome = CDLL_raises | Opened "lib_symbol set"

section \<open>RyzenMonitorLib\<close>

text \<open>
  \<open>cdll\<close> is \<^verbatim>\<open>self.lib\<close>: \<^verbatim>\<open>None\<close>, or a loaded shared object, given by the symbols
  it exports; \<open>initialized\<close> is \<^verbatim>\<open>self.initialized\<close>.
\<close>

record RyzenMonitorLib =
  cdll :: "lib_symbol set option"
  initialized :: bool
  calls :: "lib_call list"

definition new_RyzenMonitorLib :: RyzenMonitorLib where
  "new_RyzenMonitorLib = \<lparr>cdll = None, initialized = False, calls = []\<rparr>"

text \<open>
  Reading \<^verbatim>\<open>self.lib.name\<close> succeeds when \<^verbatim>\<open>self.lib\<close> is a loaded object that
  exports \<^verbatim>\<open>name\<close>; otherwise it raises \<^verbatim>\<open>AttributeError\<close>.
\<close>

definition resolves :: "lib_symbol \<Rightarrow> RyzenMonitorLib \<Rightarrow> bool" where
  "resolves x s = (case cdll s of None \<Rightarrow> False | Some syms \<Rightarrow> x \<in> syms)"

text \<open>
  \<^verbatim>\<open>load\<close> assigns \<^verbatim>\<open>self.lib\<close> first and then reads the four symbols to set their
  signatures; a missing symbol raises inside the \<^verbatim>\<open>try\<close>, so \<^verbatim>\<open>load\<close> returns
  \<^verbatim>\<open>False\<close> and \<^verbatim>\<open>self.lib\<close> stays assigned.
\<close>

definition load :: "load_outcome \<Rightarrow> RyzenMonitorLib \<Rightarrow> bool \<times> RyzenMonitorLib" where
  "load outcome s =
     (case outcome of
        CDLL_raises \<Rightarrow> (False, s)
      | Opened syms \<Rightarrow>
          (Sym_ryzen_init \<in> syms \<and> Sym_ryzen_cleanup \<in> syms \<and>
           Sym_ryzen_get_system_info \<in> syms \<and> Sym_ryzen_read_data \<in> syms,
           s\<lparr>cdll := Some syms\<rparr>))"

definition init :: "c_int \<Rightarrow> RyzenMonitorLib \<Rightarrow> (error + bool) \<times> RyzenMonitorLib" where
  "init ryzen_init s =
     (if \<not> resolves Sym_ryzen_init s then (Inl AttributeError, s)
      else let s' = s\<lparr>calls := calls s @ [Ryzen_init]\<rparr>
           in if ryzen_init = 0 then (Inr True, s'\<lparr>initialized := True\<rparr>)
              else (Inr False, s'))"

definition cleanup :: "RyzenMonitorLib \<Rightarrow> (error + unit) \<times> RyzenMonitorLib" where
  "cleanup s =
     (if initialized s then
        (if \<not> resolves Sym_ryzen_cleanup s then (Inl AttributeError, s)
         else (Inr (), s\<lparr>calls := calls s @ [Ryzen_cleanup], initialized := False\<rparr>))
      else (Inr (), s))"

definition get_system_info ::
  "c_int \<times> SystemData \<Rightarrow> RyzenMonitorLib \<Rightarrow> (error + SystemData option) \<times> RyzenMonitorLib"
where
  "get_system_info ryzen_get_system_info s =
     (if \<not> initialized s then (Inr None, s)
      else if \<not> resolves Sym_ryzen_get_system_info s then (Inl AttributeError, s)
      else let s' = s\<lparr>calls := calls s @ [Ryzen_get_system_info]\<rparr>
           in if fst ryzen_get_system_info = 0
              then (Inr (Some (snd ryzen_get_system_info)), s')
              else (Inr None, s'))"

text \<open>The six values \<^verbatim>\<open>read_data\<close> returns; each is \<^verbatim>\<open>None\<close> or a value.\<close>

type_synonym snapshot =
  "CoreData list option \<times> ConstraintsData option \<times> MemoryData option \<times>
   PowerData option \<times> GraphicsData option \<times> CalculatedStats option"

definition all_None :: snapshot where
  "all_None = (None, None, None, None, None, None)"

text \<open>
  A \<^verbatim>\<open>CoreData\<close> record is ten four-byte fields.  \<^verbatim>\<open>CoreData * max_cores\<close> raises
  \<^verbatim>\<open>ValueError\<close> on a negative length and \<^verbatim>\<open>OverflowError\<close> when the array's size in
  bytes exceeds the largest \<^verbatim>\<open>Py_ssize_t\<close> (of 64 bits).  Running out of memory when
  the array is allocated is not modelled.  The array holds \<open>max_cores\<close> records, and
  the slice \<^verbatim>\<open>cores[:num_cores]\<close> of it stops at its end.  The symbol is looked up
  after the buffers are built, and the foreign function receives \<open>max_cores\<close> as a
  \<^verbatim>\<open>c_int\<close>.
\<close>

definition sizeof_CoreData :: int where
  "sizeof_CoreData = 40"

definition read_data ::
  "(c_int \<Rightarrow> read_answer) \<Rightarrow> int \<Rightarrow> RyzenMonitorLib \<Rightarrow> (error + snapshot) \<times> RyzenMonitorLib"
where
  "read_data ryzen_read_data max_cores s =
     (if \<not> initialized s then (Inr all_None, s)
      else if max_cores < 0 then (Inl ValueError, s)
      else if (2 ^ 63 - 1) div sizeof_CoreData < max_cores then (Inl OverflowError, s)
      else if \<not> resolves Sym_ryzen_read_data s then (Inl AttributeError, s)
      else let a = ryzen_read_data (word_of_int max_cores);
               core_array = map (r_cores a) [0..<nat max_cores];
               s' = s\<lparr>calls := calls s @ [Ryzen_read_data (word_of_int max_cores)]\<rparr>;
               num_cores = int_of_c_int (r_num_cores a)
           in if 0 < num_cores
              then (Inr (Some (take (nat num_cores) core_array), Some (r_constraints a),
                         Some (r_memory a), Some (r_power a), Some (r_graphics a),
                         Some (r_stats a)), s')
              else (Inr all_None, s'))"

subsection \<open>The wrapper as a state machine\<close>

text \<open>
  One method call on the wrapper, with the foreign function's answer where the method
  makes a foreign call, and the state each call leaves.
\<close>

datatype lib_op =
  Load load_outcome
| Init c_int
| Cleanup
| Get_system_info "c_int \<times> SystemData"
| Read_data "c_int \<Rightarrow> read_answer" int

fun step :: "lib_op \<Rightarrow> RyzenMonitorLib \<Rightarrow> RyzenMonitorLib" where
  "step (Load outcome) s = snd (load outcome s)"
| "step (Init r) s = snd (init r s)"
| "step Cleanup s = snd (cleanup s)"
| "step (Get_system_info a) s = snd (get_system_info a s)"
| "step (Read_data f max_cores) s = snd (read_data f max_cores s)"

section \<open>The widgets\<close>

text \<open>
  A \<^verbatim>\<open>QLabel\<close> is its text.  A \<^verbatim>\<open>QProgressBar\<close> is its value; \<^verbatim>\<open>init_ui\<close>
  leaves its range at the toolkit's 0 to 100, and \<^verbatim>\<open>setValue\<close> ignores a value
  outside the range.  The binding refuses an argument that is not a C \<^verbatim>\<open>int\<close>.
\<close>

definition setValue :: "int \<Rightarrow> int \<Rightarrow> error + int" where
  "setValue v bar =
     (if v < - (2 ^ 31) \<or> 2 ^ 31 \<le> v then Inl OverflowError
      else if 0 \<le> v \<and> v \<le> 100 then Inr v else Inr bar)"

text \<open>
  A \<^verbatim>\<open>QTableWidget\<close>: its row and column counts and the text of the item in each
  cell (\<open>None\<close> where there is no item).
\<close>

record QTableWidget =
  rowCount :: nat
  columnCount :: nat
  item :: "nat \<Rightarrow> nat \<Rightarrow> string option"

definition setRowCount :: "nat \<Rightarrow> QTableWidget \<Rightarrow> QTableWidget" where
  "setRowCount n t =
     t\<lparr>rowCount := n,
       item := (\<lambda>i. if i < n \<and> i < rowCount t then item t i else (\<lambda>c. None))\<rparr>"

definition setItem :: "nat \<Rightarrow> nat \<Rightarrow> string \<Rightarrow> QTableWidget \<Rightarrow> QTableWidget" where
  "setItem i c text t =
     (if i < rowCount t \<and> c < columnCount t
      then t\<lparr>item := (item t)(i := (item t i)(c := Some text))\<rparr>
      else t)"

section \<open>RyzenMonitorGUI\<close>

text \<open>
  The window's state: the library wrapper, the system record fetched at start-up, and
  every widget whose content the code sets after \<^verbatim>\<open>init_ui\<close>.  Strings are UTF-8
  bytes.
\<close>

record RyzenMonitorGUI =
  lib :: RyzenMonitorLib
  sysdata :: "SystemData option"
  cpu_label :: string
  codename_label :: string
  cores_label :: string
  smu_label :: string
  peak_freq_value :: string
  peak_temp_value :: string
  peak_volt_value :: string
  avg_volt_value :: string
  avg_cc6_value :: string
  total_core_power_value :: string
  smu_peak_volt_value :: string
  pkg_cc6_value :: string
  core_table :: QTableWidget
  peak_temp_con_value :: string
  ppt_bar :: int
  ppt_value :: string
  tdc_bar :: int
  tdc_value :: string
  edc_bar :: int
  edc_value :: string
  thm_bar :: int
  thm_value :: string
  fclk_value :: string
  fclk_eff_value :: string
  uclk_value :: string
  memclk_value :: string
  coupled_value :: string
  socket_power_value :: string
  core_power_value :: string
  soc_power_value :: string
  gfx_clk_value :: string
  gfx_temp_value :: string

text \<open>
  \<^verbatim>\<open>__init__\<close> and \<^verbatim>\<open>init_ui\<close>: a fresh wrapper, the placeholder texts, progress
  bars at the toolkit's initial value and an empty table of eight columns.
\<close>

definition init_ui :: RyzenMonitorGUI where
  "init_ui =
     \<lparr>lib = new_RyzenMonitorLib, sysdata = None,
      cpu_label = ''CPU: Loading...'', codename_label = ''Codename: Loading...'',
      cores_label = ''Cores: Loading...'', smu_label = ''SMU Version: Loading...'',
      peak_freq_value = ''--'', peak_temp_value = ''--'', peak_volt_value = ''--'',
      avg_volt_value = ''--'', avg_cc6_value = ''--'', total_core_power_value = ''--'',
      smu_peak_volt_value = ''--'', pkg_cc6_value = ''--'',
      core_table = \<lparr>rowCount = 0, columnCount = 8, item = (\<lambda>i c. None)\<rparr>,
      peak_temp_con_value = ''--'',
      ppt_bar = - 1, ppt_value = ''--'', tdc_bar = - 1, tdc_value = ''--'',
      edc_bar = - 1, edc_value = ''--'', thm_bar = - 1, thm_value = ''--'',
      fclk_value = ''--'', fclk_eff_value = ''--'', uclk_value = ''--'',
      memclk_value = ''--'', coupled_value = ''--'',
      socket_power_value = ''--'', core_power_value = ''--'', soc_power_value = ''--'',
      gfx_clk_value = ''--'', gfx_temp_value = ''--''\<rparr>"

text \<open>The degree sign of the temperature labels, in UTF-8.\<close>

definition degree :: string where
  "degree = [CHR 0xC2, CHR 0xB0]"

text \<open>\<^verbatim>\<open>f"{x:.kf}"\<close> of a \<^verbatim>\<open>c_float\<close> field.\<close>

definition fmt :: "nat \<Rightarrow> c_float \<Rightarrow> string" where
  "fmt k w = format_f k (float_of_c_float w)"

subsection \<open>The blocks of \<^verbatim>\<open>update_data\<close>\<close>

text \<open>The body of the loop over \<^verbatim>\<open>enumerate(cores)\<close>.\<close>

definition core_table_row :: "nat \<Rightarrow> CoreData \<Rightarrow> QTableWidget \<Rightarrow> QTableWidget" where
  "core_table_row i core t =
     (let status = (if truthy (disabled core) then ''Disabled''
                    else if truthy (sleeping core) then ''Sleeping''
                    else fmt 0 (frequency core));
          t = setItem i 0 (''Core '' @ str_int (int_of_c_int (core_num core))) t;
          t = setItem i 1 status t;
          t = setItem i 2 (fmt 3 (power' core)) t;
          t = setItem i 3 (fmt 3 (voltage core)) t;
          t = setItem i 4 (fmt 1 (temp core)) t;
          t = setItem i 5 (fmt 1 (c0 core)) t;
          t = setItem i 6 (fmt 1 (cc1 core)) t;
          t = setItem i 7 (fmt 1 (cc6 core)) t
      in t)"

fun core_table_loop :: "nat \<Rightarrow> CoreData list \<Rightarrow> QTableWidget \<Rightarrow> QTableWidget" where
  "core_table_loop i [] t = t"
| "core_table_loop i (core # rest) t = core_table_loop (Suc i) rest (core_table_row i core t)"

text \<open>Under \<^verbatim>\<open># Calculated Stats\<close>.\<close>

definition stats_block :: "CalculatedStats \<Rightarrow> RyzenMonitorGUI \<Rightarrow> RyzenMonitorGUI" where
  "stats_block stats g =
     g\<lparr>peak_freq_value := fmt 0 (peak_core_frequency stats) @ '' MHz'',
       peak_temp_value := fmt 1 (peak_core_temp stats) @ '' '' @ degree @ ''C'',
       peak_volt_value := fmt 3 (peak_core_voltage stats) @ '' V'',
       avg_volt_value := fmt 3 (avg_core_voltage stats) @ '' V'',
       avg_cc6_value := fmt 1 (avg_core_cc6 stats) @ '' %'',
       total_core_power_value := fmt 3 (CalculatedStats.total_core_power stats) @ '' W'',
       smu_peak_volt_value := fmt 3 (peak_core_voltage_smu stats) @ '' V'',
       pkg_cc6_value :=
         (if \<not> float_ne (float_of_c_float (package_cc6 stats))
                          (float_of_c_float (package_cc6 stats))
          then fmt 1 (package_cc6 stats) @ '' %'' else ''--'')\<rparr>"

text \<open>
  The argument of a progress bar's \<^verbatim>\<open>setValue\<close>:
  \<^verbatim>\<open>int(value / limit * 100) if limit > 0 else 0\<close>.
\<close>

definition bar_percent :: "c_float \<Rightarrow> c_float \<Rightarrow> error + int" where
  "bar_percent v limit =
     (if float_gt0 (float_of_c_float limit) then
        (case float_div (float_of_c_float v) (float_of_c_float limit) of
           Inl e \<Rightarrow> Inl e
         | Inr d \<Rightarrow> int_of_float (float_mul_int d 100))
      else Inr 0)"

definition set_bar :: "c_float \<Rightarrow> c_float \<Rightarrow> int \<Rightarrow> error + int" where
  "set_bar v limit bar =
     (case bar_percent v limit of Inl e \<Rightarrow> Inl e | Inr p \<Rightarrow> setValue p bar)"

text \<open>The text beside a bar: \<^verbatim>\<open>f"{value:.1f} / {limit:.0f} U"\<close>.\<close>

definition pair_text :: "c_float \<Rightarrow> c_float \<Rightarrow> string \<Rightarrow> string" where
  "pair_text v limit unit_name = fmt 1 v @ '' / '' @ fmt 0 limit @ '' '' @ unit_name"

text \<open>
  Under \<^verbatim>\<open># Constraints\<close>.  A statement that raises ends the routine; what was set
  before it stays set.
\<close>

definition constraints_block ::
  "ConstraintsData \<Rightarrow> RyzenMonitorGUI \<Rightarrow> error option \<times> RyzenMonitorGUI"
where
  "constraints_block c g =
     (let g = g\<lparr>peak_temp_con_value := fmt 1 (peak_temp c) @ '' '' @ degree @ ''C''\<rparr>
      in case set_bar (ConstraintsData.ppt_value c) (ppt_limit c) (ppt_bar g) of
           Inl e \<Rightarrow> (Some e, g)
         | Inr b \<Rightarrow>
      let g = g\<lparr>ppt_bar := b,
                 ppt_value := pair_text (ConstraintsData.ppt_value c) (ppt_limit c) ''W''\<rparr>
      in case set_bar (ConstraintsData.tdc_value c) (tdc_limit c) (tdc_bar g) of
           Inl e \<Rightarrow> (Some e, g)
         | Inr b \<Rightarrow>
      let g = g\<lparr>tdc_bar := b,
                 tdc_value := pair_text (ConstraintsData.tdc_value c) (tdc_limit c) ''A''\<rparr>
      in case set_bar (ConstraintsData.edc_value c) (edc_limit c) (edc_bar g) of
           Inl e \<Rightarrow> (Some e, g)
         | Inr b \<Rightarrow>
      let g = g\<lparr>edc_bar := b,
                 edc_value := pair_text (ConstraintsData.edc_value c) (edc_limit c) ''A''\<rparr>
      in case set_bar (ConstraintsData.thm_value c) (thm_limit c) (thm_bar g) of
           Inl e \<Rightarrow> (Some e, g)
         | Inr b \<Rightarrow>
      (None, g\<lparr>thm_bar := b,
                 thm_value := pair_text (ConstraintsData.thm_value c) (thm_limit c) ''C''\<rparr>))"

text \<open>Under \<^verbatim>\<open># Memory\<close>, \<^verbatim>\<open># Power\<close> and \<^verbatim>\<open># Graphics\<close>.\<close>

definition memory_block :: "MemoryData \<Rightarrow> RyzenMonitorGUI \<Rightarrow> RyzenMonitorGUI" where
  "memory_block memory g =
     g\<lparr>fclk_value := fmt 0 (fclk_freq memory) @ '' MHz'',
       fclk_eff_value := fmt 0 (fclk_freq_eff memory) @ '' MHz'',
       uclk_value := fmt 0 (uclk_freq memory) @ '' MHz'',
       memclk_value := fmt 0 (memclk_freq memory) @ '' MHz'',
       coupled_value := (if truthy (coupled_mode memory) then ''ON'' else ''OFF'')\<rparr>"

definition power_block :: "PowerData \<Rightarrow> RyzenMonitorGUI \<Rightarrow> RyzenMonitorGUI" where
  "power_block power_data g =
     g\<lparr>socket_power_value := fmt 3 (socket_power power_data) @ '' W'',
       core_power_value := fmt 3 (PowerData.total_core_power power_data) @ '' W'',
       soc_power_value := fmt 3 (vddcr_soc_power power_data) @ '' W''\<rparr>"

definition graphics_block :: "GraphicsData \<Rightarrow> RyzenMonitorGUI \<Rightarrow> RyzenMonitorGUI" where
  "graphics_block graphics g =
     g\<lparr>gfx_clk_value := fmt 0 (gfx_freq graphics) @ '' MHz'',
       gfx_temp_value := fmt 1 (GraphicsData.gfx_temp graphics) @ '' '' @ degree @ ''C''\<rparr>"

subsection \<open>\<^verbatim>\<open>update_data\<close>\<close>

text \<open>
  One timer tick.  \<^verbatim>\<open>if not cores: return\<close> leaves on \<^verbatim>\<open>None\<close> and on an empty
  list; a structure object is always true, so each later \<^verbatim>\<open>if\<close> tests for
  \<^verbatim>\<open>None\<close> only.  The result is the exception that ended the routine, if any, and
  the state it left.
\<close>

definition update_data ::
  "(c_int \<Rightarrow> read_answer) \<Rightarrow> RyzenMonitorGUI \<Rightarrow> error option \<times> RyzenMonitorGUI"
where
  "update_data ryzen_read_data g =
     (case read_data ryzen_read_data 32 (lib g) of
        (Inl e, l) \<Rightarrow> (Some e, g\<lparr>lib := l\<rparr>)
      | (Inr (core_list, constraints, memory, power_data, graphics, stats), l) \<Rightarrow>
          (let g = g\<lparr>lib := l\<rparr>
           in if core_list = None \<or> core_list = Some [] then (None, g)
              else
                let g = g\<lparr>core_table :=
                            core_table_loop 0 (the core_list)
                              (setRowCount (length (the core_list)) (core_table g))\<rparr>;
                    g = (case stats of None \<Rightarrow> g | Some st \<Rightarrow> stats_block st g)
                in case (case constraints of
                           None \<Rightarrow> (None, g)
                         | Some c \<Rightarrow> constraints_block c g) of
                     (Some e, g) \<Rightarrow> (Some e, g)
                   | (None, g) \<Rightarrow>
                       (let g = (case memory of None \<Rightarrow> g | Some m \<Rightarrow> memory_block m g);
                            g = (case power_data of None \<Rightarrow> g | Some p \<Rightarrow> power_block p g);
                            g = (case graphics of None \<Rightarrow> g | Some gr \<Rightarrow> graphics_block gr g)
                        in (None, g))))"

section \<open>Freshly constructed structures and example states\<close>

text \<open>
  \<^verbatim>\<open>ConstraintsData()\<close>, \<^verbatim>\<open>MemoryData()\<close>, \<^verbatim>\<open>PowerData()\<close>,
  \<^verbatim>\<open>GraphicsData()\<close> and \<^verbatim>\<open>CalculatedStats()\<close> as \<^verbatim>\<open>read_data\<close> constructs
  them: every field is zero.
\<close>

definition zero_ConstraintsData :: ConstraintsData where
  "zero_ConstraintsData =
     \<lparr>ConstraintsData.peak_temp = 0, ConstraintsData.soc_temp = 0,
      ConstraintsData.gfx_temp = 0, ConstraintsData.vid_value = 0,
      ConstraintsData.vid_limit = 0, ConstraintsData.ppt_value = 0,
      ConstraintsData.ppt_limit = 0, ConstraintsData.ppt_apu_value = 0,
      ConstraintsData.ppt_apu_limit = 0, ConstraintsData.tdc_value = 0,
      ConstraintsData.tdc_limit = 0, ConstraintsData.tdc_actual = 0,
      ConstraintsData.tdc_soc_value = 0, ConstraintsData.tdc_soc_limit = 0,
      ConstraintsData.edc_value = 0, ConstraintsData.edc_limit = 0,
      ConstraintsData.edc_soc_value = 0, ConstraintsData.edc_soc_limit = 0,
      ConstraintsData.thm_value = 0, ConstraintsData.thm_limit = 0,
      ConstraintsData.thm_soc_value = 0, ConstraintsData.thm_soc_limit = 0,
      ConstraintsData.thm_gfx_value = 0, ConstraintsData.thm_gfx_limit = 0,
      ConstraintsData.fit_value = 0, ConstraintsData.fit_limit = 0\<rparr>"

definition zero_MemoryData :: MemoryData where
  "zero_MemoryData =
     \<lparr>fclk_freq = 0, fclk_freq_eff = 0, uclk_freq = 0, memclk_freq = 0,
      v_vddm = 0, v_vddp = 0, v_vddg = 0, v_vddg_iod = 0, v_vddg_ccd = 0,
      coupled_mode = 0\<rparr>"

definition zero_PowerData :: PowerData where
  "zero_PowerData =
     \<lparr>PowerData.total_core_power = 0, PowerData.vddcr_soc_power = 0,
      PowerData.io_vddcr_soc_power = 0, PowerData.gmi2_vddg_power = 0,
      PowerData.roc_power = 0, PowerData.l3_logic_power = 0, PowerData.l3_vddm_power = 0,
      PowerData.vddio_mem_power = 0, PowerData.iod_vddio_mem_power = 0,
      PowerData.ddr_vddp_power = 0, PowerData.ddr_phy_power = 0,
      PowerData.vdd18_power = 0, PowerData.io_display_power = 0,
      PowerData.io_usb_power = 0, PowerData.socket_power = 0,
      PowerData.package_power = 0, PowerData.vddcr_cpu_power = 0,
      PowerData.soc_telemetry_voltage = 0, PowerData.soc_telemetry_current = 0,
      PowerData.soc_telemetry_power = 0, PowerData.cpu_telemetry_voltage = 0,
      PowerData.cpu_telemetry_current = 0, PowerData.cpu_telemetry_power = 0\<rparr>"

definition zero_GraphicsData :: GraphicsData where
  "zero_GraphicsData =
     \<lparr>GraphicsData.gfx_voltage = 0, GraphicsData.roc_power = 0,
      GraphicsData.gfx_temp = 0, GraphicsData.gfx_freq = 0,
      GraphicsData.gfx_freq_eff = 0, GraphicsData.gfx_busy = 0,
      GraphicsData.gfx_edc_lim = 0, GraphicsData.gfx_edc_residency = 0,
      GraphicsData.display_count = 0, GraphicsData.fps = 0, GraphicsData.dgpu_power = 0,
      GraphicsData.dgpu_freq_target = 0, GraphicsData.dgpu_gfx_busy = 0\<rparr>"

definition zero_CalculatedStats :: CalculatedStats where
  "zero_CalculatedStats =
     \<lparr>CalculatedStats.peak_core_frequency = 0, CalculatedStats.peak_core_temp = 0,
      CalculatedStats.peak_core_voltage = 0, CalculatedStats.avg_core_voltage = 0,
      CalculatedStats.avg_core_cc6 = 0, CalculatedStats.total_core_power = 0,
      CalculatedStats.peak_core_voltage_smu = 0, CalculatedStats.package_cc6 = 0\<rparr>"

text \<open>
  A shared object that exports all four symbols; a wrapper after a successful
  \<^verbatim>\<open>load\<close> of it, the same after a successful \<^verbatim>\<open>init\<close>, and the window that
  holds it.
\<close>

definition all_symbols :: "lib_symbol set" where
  "all_symbols =
     {Sym_ryzen_init, Sym_ryzen_cleanup, Sym_ryzen_get_system_info, Sym_ryzen_read_data}"

definition example_loaded :: RyzenMonitorLib where
  "example_loaded = step (Load (Opened all_symbols)) new_RyzenMonitorLib"

definition example_ready :: RyzenMonitorLib where
  "example_ready = step (Init 0) example_loaded"

text \<open>
  A wrapper whose shared object lacks \<^verbatim>\<open>ryzen_cleanup\<close> and \<^verbatim>\<open>ryzen_read_data\<close>:
  \<^verbatim>\<open>load\<close> returned \<^verbatim>\<open>False\<close>, and \<^verbatim>\<open>init\<close> was called all the same.
\<close>

definition example_incomplete :: RyzenMonitorLib where
  "example_incomplete =
     step (Init 0)
       (step (Load (Opened {Sym_ryzen_init, Sym_ryzen_get_system_info})) new_RyzenMonitorLib)"

definition example_window :: RyzenMonitorGUI where
  "example_window = init_ui\<lparr>lib := example_ready\<rparr>"

text \<open>
  A library that reports \<open>n\<close> populated cores, stores core \<open>i\<close> at index \<open>i\<close> for
  every index below \<open>n\<close> whatever the buffer's size, and leaves the other structures
  zero.
\<close>

definition example_answer :: "c_int \<Rightarrow> c_int \<Rightarrow> read_answer" where
  "example_answer n max_cores =
     \<lparr>r_num_cores = n,
      r_cores = (\<lambda>i. if i < unat n then zero_CoreData\<lparr>core_num := of_nat i\<rparr>
                     else zero_CoreData),
      r_constraints = zero_ConstraintsData, r_memory = zero_MemoryData,
      r_power = zero_PowerData, r_graphics = zero_GraphicsData,
      r_stats = zero_CalculatedStats\<rparr>"

text \<open>A system record as \<^verbatim>\<open>ryzen_get_system_info\<close> may fill it.\<close>

definition example_SystemData :: SystemData where
  "example_SystemData =
     \<lparr>cpu_name = ''AMD Ryzen 7 5800X 8-Core Processor'', codename = ''Vermeer'',
      smu_fw_ver = ''56.53.0'', cores = 8, ccds = 1, ccxs = 1, cores_per_ccx = 8,
      if_ver = 11, enabled_cores_count = 8\<rparr>"

text \<open>
  A poll of eight cores at 4350 MHz: cores 6 and 7 are disabled, cores 5 and 7 are
  sleeping, the package power is 45.2 W (the nearest \<^verbatim>\<open>c_float\<close>) against a limit
  of 0, and everything else is zero.
\<close>

definition scenario_core :: "nat \<Rightarrow> CoreData" where
  "scenario_core i =
     zero_CoreData\<lparr>core_num := of_nat i, frequency := 0x4587F000,
       disabled := (if i = 6 \<or> i = 7 then 1 else 0),
       sleeping := (if i = 5 \<or> i = 7 then 1 else 0)\<rparr>"

definition scenario_answer :: "c_int \<Rightarrow> read_answer" where
  "scenario_answer max_cores =
     \<lparr>r_num_cores = 8, r_cores = scenario_core,
      r_constraints =
        zero_ConstraintsData\<lparr>ConstraintsData.ppt_value := 0x4234CCCD, ppt_limit := 0\<rparr>,
      r_memory = zero_MemoryData, r_power = zero_PowerData,
      r_graphics = zero_GraphicsData, r_stats = zero_CalculatedStats\<rparr>"

text \<open>The quiet not-a-number and the number 100 as \<^verbatim>\<open>c_float\<close> words.\<close>

definition c_float_nan :: c_float where
  "c_float_nan = 0x7FC00000"

definition c_float_100 :: c_float where
  "c_float_100 = 0x42C80000"

text \<open>The same poll with every aggregate a not-a-number.\<close>

definition nan_CalculatedStats :: CalculatedStats where
  "nan_CalculatedStats =
     \<lparr>CalculatedStats.peak_core_frequency = c_float_nan,
      CalculatedStats.peak_core_temp = c_float_nan,
      CalculatedStats.peak_core_voltage = c_float_nan,
      CalculatedStats.avg_core_voltage = c_float_nan,
      CalculatedStats.avg_core_cc6 = c_float_nan,
      CalculatedStats.total_core_power = c_float_nan,
      CalculatedStats.peak_core_voltage_smu = c_float_nan,
      CalculatedStats.package_cc6 = c_float_nan\<rparr>"

definition nan_stats_answer :: "c_int \<Rightarrow> read_answer" where
  "nan_stats_answer max_cores = (scenario_answer max_cores)\<lparr>r_stats := nan_CalculatedStats\<rparr>"

text \<open>The same poll with a package power that is a not-a-number against a limit of 100.\<close>

definition nan_ppt_answer :: "c_int \<Rightarrow> read_answer" where
  "nan_ppt_answer max_cores =
     (scenario_answer max_cores)
       \<lparr>r_constraints :=
          zero_ConstraintsData\<lparr>ConstraintsData.ppt_value := c_float_nan,
                                ppt_limit := c_float_100\<rparr>\<rparr>"

text \<open>A window that shows the values of an earlier poll.\<close>

definition example_shown :: RyzenMonitorGUI where
  "example_shown =
     example_window
       \<lparr>peak_freq_value := ''4350 MHz'',
        core_table :=
          \<lparr>rowCount = 8, columnCount = 8,
           item = (\<lambda>i c. if i < 8 \<and> c = 1 then Some ''4350'' else None)\<rparr>,
        ppt_bar := 45, ppt_value := ''45.2 / 100 W''\<rparr>"

section \<open>The wrapper's states\<close>

lemma example_loaded_eq:
  "example_loaded = \<lparr>cdll = Some all_symbols, initialized = False, calls = []\<rparr>"
  by (simp add: example_loaded_def new_RyzenMonitorLib_def load_def)

lemma example_ready_eq:
  "example_ready = \<lparr>cdll = Some all_symbols, initialized = True, calls = [Ryzen_init]\<rparr>"
  by (simp add: example_ready_def example_loaded_eq init_def resolves_def all_symbols_def)

lemma example_ready_resolves: "resolves x example_ready"
  by (cases x) (simp_all add: example_ready_eq resolves_def all_symbols_def)

text \<open>A \<^verbatim>\<open>load\<close> that returns \<^verbatim>\<open>True\<close> leaves a library that resolves every symbol.\<close>

lemma load_True_resolves: "fst (load outcome s) \<Longrightarrow> resolves x (snd (load outcome s))"
  by (cases outcome; cases x) (simp_all add: load_def resolves_def)

text \<open>
  Without the symbol the foreign-call paths raise: on the incomplete library
  \<^verbatim>\<open>cleanup\<close> and \<^verbatim>\<open>read_data\<close> end in \<^verbatim>\<open>AttributeError\<close> and leave the state as it
  was.
\<close>

lemma example_incomplete_eq:
  "example_incomplete =
     \<lparr>cdll = Some {Sym_ryzen_init, Sym_ryzen_get_system_info}, initialized = True,
      calls = [Ryzen_init]\<rparr>"
  by (simp add: example_incomplete_def new_RyzenMonitorLib_def load_def init_def resolves_def)

lemma incomplete_library_raises:
  "cleanup example_incomplete = (Inl AttributeError, example_incomplete)"
  "read_data f 32 example_incomplete = (Inl AttributeError, example_incomplete)"
  by (simp_all add: example_incomplete_eq cleanup_def read_data_def resolves_def
        sizeof_CoreData_def)

text \<open>An array too large for \<^verbatim>\<open>ctypes\<close> raises before any foreign call.\<close>

lemma huge_array_raises:
  "read_data f (2 ^ 64 + 32) example_ready = (Inl OverflowError, example_ready)"
  by (simp add: example_ready_eq read_data_def sizeof_CoreData_def)

section \<open>Teardown\<close>

text \<open>
  C6.  From an initialized wrapper whose library exports \<^verbatim>\<open>ryzen_cleanup\<close>, as every
  library does that \<^verbatim>\<open>load\<close> accepted, two calls of \<^verbatim>\<open>cleanup\<close> in succession both
  return normally, the first makes exactly one foreign \<^verbatim>\<open>ryzen_cleanup\<close> call and
  clears the flag, and the second changes nothing.  On a wrapper whose flag is not set,
  so also on one that was never initialized, \<^verbatim>\<open>cleanup\<close> returns normally and makes
  no foreign call.
\<close>

theorem cleanup_twice:
  "(resolves Sym_ryzen_cleanup s \<and> initialized s \<longrightarrow>
      (\<exists>s1. cleanup s = (Inr (), s1) \<and> cleanup s1 = (Inr (), s1) \<and>
            calls s1 = calls s @ [Ryzen_cleanup] \<and> \<not> initialized s1)) \<and>
   (\<not> initialized s \<longrightarrow> cleanup s = (Inr (), s))"
  by (auto simp: cleanup_def)

theorem cleanup_twice_witness:
  "resolves Sym_ryzen_cleanup example_ready \<and> initialized example_ready \<and>
   (\<exists>s1. cleanup example_ready = (Inr (), s1) \<and> cleanup s1 = (Inr (), s1) \<and>
         calls s1 = [Ryzen_init, Ryzen_cleanup] \<and> \<not> initialized s1) \<and>
   \<not> initialized new_RyzenMonitorLib \<and>
   cleanup new_RyzenMonitorLib = (Inr (), new_RyzenMonitorLib) \<and>
   calls new_RyzenMonitorLib = []"
proof -
  have r: "resolves Sym_ryzen_cleanup example_ready" by (rule example_ready_resolves)
  have i: "initialized example_ready" by (simp add: example_ready_eq)
  have n: "\<not> initialized new_RyzenMonitorLib" by (simp add: new_RyzenMonitorLib_def)
  from cleanup_twice [of example_ready] r i
  have a: "\<exists>s1. cleanup example_ready = (Inr (), s1) \<and> cleanup s1 = (Inr (), s1) \<and>
         calls s1 = calls example_ready @ [Ryzen_cleanup] \<and> \<not> initialized s1" by blast
  from cleanup_twice [of new_RyzenMonitorLib] n
  have b: "cleanup new_RyzenMonitorLib = (Inr (), new_RyzenMonitorLib)" by blast
  from a have a': "\<exists>s1. cleanup example_ready = (Inr (), s1) \<and> cleanup s1 = (Inr (), s1) \<and>
         calls s1 = [Ryzen_init, Ryzen_cleanup] \<and> \<not> initialized s1"
    by (simp add: example_ready_eq)
  show ?thesis using r i n a' b by (simp add: new_RyzenMonitorLib_def)
qed

section \<open>Polling\<close>

lemma example_answer_num_cores:
  "r_num_cores (example_answer n m) = n"
  by (simp add: example_answer_def)

text \<open>
  C8.  On a wrapper whose \<open>initialized\<close> flag is false, \<^verbatim>\<open>read_data\<close> returns six
  \<^verbatim>\<open>None\<close> and \<^verbatim>\<open>get_system_info\<close> returns \<^verbatim>\<open>None\<close>, and both leave the state,
  so also the record of foreign calls, as it was.  The only method call that takes the
  flag from false to true is \<^verbatim>\<open>init\<close> on a library that exports \<^verbatim>\<open>ryzen_init\<close> and
  whose \<^verbatim>\<open>ryzen_init\<close> returned 0; after any \<^verbatim>\<open>init\<close> the flag is set only if it
  was set before or the foreign routine returned 0.
\<close>

theorem polling_needs_initialized:
  "(\<not> initialized s \<longrightarrow>
      read_data f max_cores s = (Inr all_None, s) \<and> get_system_info a s = (Inr None, s)) \<and>
   (\<not> initialized s \<and> initialized (step op s) \<longrightarrow> op = Init 0 \<and> resolves Sym_ryzen_init s) \<and>
   (initialized (snd (init r s)) \<longrightarrow> initialized s \<or> r = 0)"
  by (cases op)
     (auto simp: load_def init_def cleanup_def get_system_info_def read_data_def Let_def
           split: load_outcome.splits if_splits)

theorem polling_needs_initialized_witness:
  "\<not> initialized new_RyzenMonitorLib \<and>
   read_data (example_answer 8) 32 new_RyzenMonitorLib = (Inr all_None, new_RyzenMonitorLib) \<and>
   get_system_info (0, example_SystemData) new_RyzenMonitorLib =
     (Inr None, new_RyzenMonitorLib) \<and>
   \<not> initialized example_loaded \<and>
   initialized (step (Init 0) example_loaded) \<and>
   resolves Sym_ryzen_init example_loaded \<and>
   initialized (snd (init 0 example_loaded)) \<and>
   \<not> initialized (snd (init 1 example_loaded))"
proof -
  have n: "\<not> initialized new_RyzenMonitorLib" by (simp add: new_RyzenMonitorLib_def)
  have l: "\<not> initialized example_loaded" by (simp add: example_loaded_eq)
  have i: "initialized (step (Init 0) example_loaded)"
    by (simp add: example_loaded_eq init_def resolves_def all_symbols_def)
  have f: "\<not> initialized (snd (init 1 example_loaded))"
    by (simp add: example_loaded_eq init_def resolves_def all_symbols_def)
  from polling_needs_initialized
         [of new_RyzenMonitorLib "example_answer 8" 32 "(0, example_SystemData)"] n
  have a: "read_data (example_answer 8) 32 new_RyzenMonitorLib =
             (Inr all_None, new_RyzenMonitorLib) \<and>
           get_system_info (0, example_SystemData) new_RyzenMonitorLib =
             (Inr None, new_RyzenMonitorLib)"
    by blast
  from polling_needs_initialized [of example_loaded _ _ _ "Init 0"] l i
  have c: "resolves Sym_ryzen_init example_loaded" by blast
  from i have i': "initialized (snd (init 0 example_loaded))" by simp
  show ?thesis using n l i a c i' f by blast
qed

text \<open>
  C7.  On an initialized wrapper whose library exports \<^verbatim>\<open>ryzen_read_data\<close>, as every
  library does that \<^verbatim>\<open>load\<close> accepted, and for a buffer size that is a C \<^verbatim>\<open>int\<close>:
  when \<^verbatim>\<open>ryzen_read_data\<close> reports a positive count \<open>n\<close> that does not exceed
  \<open>max_cores\<close>, \<^verbatim>\<open>read_data\<close> returns the first \<open>n\<close> records of the buffer, exactly
  \<open>n\<close> of them, together with the five structures the library filled; when it reports
  a count of zero or less, \<^verbatim>\<open>read_data\<close> returns six \<^verbatim>\<open>None\<close>.
\<close>

theorem read_data_populated:
  "(resolves Sym_ryzen_read_data s \<and> initialized s \<and> max_cores < 2 ^ 31 \<and>
    a = f (word_of_int max_cores) \<and>
    0 < int_of_c_int (r_num_cores a) \<and> int_of_c_int (r_num_cores a) \<le> max_cores \<longrightarrow>
      (\<exists>cs s'. read_data f max_cores s =
                  (Inr (Some cs, Some (r_constraints a), Some (r_memory a), Some (r_power a),
                        Some (r_graphics a), Some (r_stats a)), s') \<and>
               int (length cs) = int_of_c_int (r_num_cores a) \<and>
               (\<forall>i<length cs. cs ! i = r_cores a i))) \<and>
   (resolves Sym_ryzen_read_data s \<and> initialized s \<and> 0 \<le> max_cores \<and> max_cores < 2 ^ 31 \<and>
    int_of_c_int (r_num_cores (f (word_of_int max_cores))) \<le> 0 \<longrightarrow>
      fst (read_data f max_cores s) = Inr all_None)"
  by (auto simp: read_data_def Let_def sizeof_CoreData_def)

theorem read_data_populated_witness:
  "resolves Sym_ryzen_read_data example_ready \<and> initialized example_ready \<and>
   0 < int_of_c_int (r_num_cores (example_answer 8 (word_of_int 32))) \<and>
   int_of_c_int (r_num_cores (example_answer 8 (word_of_int 32))) \<le> 32 \<and>
   (\<exists>cs s'. read_data (example_answer 8) 32 example_ready =
               (Inr (Some cs, Some zero_ConstraintsData, Some zero_MemoryData,
                     Some zero_PowerData, Some zero_GraphicsData,
                     Some zero_CalculatedStats), s') \<and>
            length cs = 8 \<and> cs ! 7 = zero_CoreData\<lparr>core_num := 7\<rparr>) \<and>
   int_of_c_int (r_num_cores (example_answer (- 1) (word_of_int 32))) \<le> 0 \<and>
   fst (read_data (example_answer (- 1)) 32 example_ready) = Inr all_None"
proof -
  let ?a = "example_answer 8 (word_of_int 32)"
  have r: "resolves Sym_ryzen_read_data example_ready" by (rule example_ready_resolves)
  have i: "initialized example_ready" by (simp add: example_ready_eq)
  have n: "int_of_c_int (r_num_cores ?a) = 8"
    by (simp add: example_answer_num_cores int_of_c_int_def)
  have m: "int_of_c_int (r_num_cores (example_answer (- 1) (word_of_int 32))) = - 1"
    by (simp add: example_answer_num_cores int_of_c_int_def)
  from read_data_populated [of example_ready 32 ?a "example_answer 8"] r i n
  obtain cs s' where
    rd: "read_data (example_answer 8) 32 example_ready =
           (Inr (Some cs, Some (r_constraints ?a), Some (r_memory ?a), Some (r_power ?a),
                 Some (r_graphics ?a), Some (r_stats ?a)), s')"
    and len: "int (length cs) = 8" and nth: "\<forall>i<length cs. cs ! i = r_cores ?a i"
    by auto
  from len have len': "length cs = 8" by simp
  with nth have "cs ! 7 = r_cores ?a 7" by simp
  then have c7: "cs ! 7 = zero_CoreData\<lparr>core_num := 7\<rparr>"
    by (simp add: example_answer_def)
  from rd have rd':
    "read_data (example_answer 8) 32 example_ready =
       (Inr (Some cs, Some zero_ConstraintsData, Some zero_MemoryData, Some zero_PowerData,
             Some zero_GraphicsData, Some zero_CalculatedStats), s')"
    by (simp add: example_answer_def)
  from read_data_populated [of example_ready 32 _ "example_answer (- 1)"] r i m
  have z: "fst (read_data (example_answer (- 1)) 32 example_ready) = Inr all_None" by simp
  show ?thesis using r i n m rd' len' c7 z by auto
qed

text \<open>
  C10.  Whatever the wrapper's state and whatever the library answers, a core list
  returned by \<^verbatim>\<open>read_data\<close> has at most \<open>max_cores\<close> records.  On an initialized
  wrapper whose library exports \<^verbatim>\<open>ryzen_read_data\<close>, and for a buffer size that is a
  C \<^verbatim>\<open>int\<close>, when the library reports more populated cores than the buffer holds the
  list is the whole buffer, \<open>max_cores\<close> records long.
\<close>

theorem read_data_at_most_max_cores:
  "(read_data f max_cores s = (Inr (Some cs, rest), s') \<longrightarrow> int (length cs) \<le> max_cores) \<and>
   (resolves Sym_ryzen_read_data s \<and> initialized s \<and> 0 \<le> max_cores \<and> max_cores < 2 ^ 31 \<and>
    max_cores < int_of_c_int (r_num_cores (f (word_of_int max_cores))) \<longrightarrow>
      (\<exists>cs rest s'. read_data f max_cores s = (Inr (Some cs, rest), s') \<and>
                    int (length cs) = max_cores))"
  by (auto simp: read_data_def Let_def all_None_def sizeof_CoreData_def split: if_splits)

theorem read_data_at_most_max_cores_witness:
  "resolves Sym_ryzen_read_data example_ready \<and> initialized example_ready \<and>
   32 < int_of_c_int (r_num_cores (example_answer 40 (word_of_int 32))) \<and>
   (\<exists>cs rest s'. read_data (example_answer 40) 32 example_ready = (Inr (Some cs, rest), s') \<and>
                 length cs = 32)"
proof -
  have r: "resolves Sym_ryzen_read_data example_ready" by (rule example_ready_resolves)
  have i: "initialized example_ready" by (simp add: example_ready_eq)
  have n: "int_of_c_int (r_num_cores (example_answer 40 (word_of_int 32))) = 40"
    by (simp add: example_answer_num_cores int_of_c_int_def)
  from read_data_at_most_max_cores [of "example_answer 40" 32 example_ready "[]" _ example_ready]
    r i n
  have "\<exists>cs rest s'. read_data (example_answer 40) 32 example_ready =
                         (Inr (Some cs, rest), s') \<and> int (length cs) = 32"
    by simp
  then obtain cs rest s' where
    rd: "read_data (example_answer 40) 32 example_ready = (Inr (Some cs, rest), s')"
    and len: "int (length cs) = 32"
    by blast
  from read_data_at_most_max_cores [of "example_answer 40" 32 example_ready cs rest s'] rd
  have "int (length cs) \<le> 32" by blast
  with len have len': "length cs = 32" by simp
  have n': "32 < int_of_c_int (r_num_cores (example_answer 40 (word_of_int 32)))"
    using n by simp
  from rd len' have
    "\<exists>cs rest s'. read_data (example_answer 40) 32 example_ready =
                    (Inr (Some cs, rest), s') \<and> length cs = 32"
    by blast
  with r i n' show ?thesis by blast
qed

section \<open>Facts about formatting\<close>

lemma round_half_even_near: "\<bar>of_int (round_half_even q) - q\<bar> \<le> 1 / 2"
proof -
  have "of_int \<lfloor>q\<rfloor> \<le> q" "q < of_int \<lfloor>q\<rfloor> + 1" by linarith+
  then show ?thesis unfolding round_half_even_def Let_def by (simp split: if_splits) linarith?
qed

lemma fixed_digits_0: "fixed_digits 0 n = dec n"
  by (simp add: fixed_digits_def)

lemma dec_Cons: "\<exists>d rest. d < 10 \<and> dec n = digit_char d # rest"
proof (induction n rule: dec.induct)
  case (1 n)
  show ?case
  proof (cases "n < 10")
    case True
    then have "dec n = [digit_char n]" by (subst dec.simps) simp
    with True show ?thesis by blast
  next
    case False
    with 1 obtain d rest where d: "d < 10" "dec (n div 10) = digit_char d # rest" by blast
    from False have "dec n = dec (n div 10) @ [digit_char (n mod 10)]"
      by (subst dec.simps) simp
    with d have "dec n = digit_char d # (rest @ [digit_char (n mod 10)])" by simp
    with d show ?thesis by blast
  qed
qed

lemma digit_char_not_S: "d < 10 \<Longrightarrow> digit_char d \<noteq> CHR ''S''"
proof
  assume d: "d < 10" and "digit_char d = CHR ''S''"
  then have "of_char (char_of (48 + d) :: char) = (of_char (CHR ''S'') :: nat)"
    by (simp add: digit_char_def)
  with d show False by simp
qed

lemma fixed_digits_Cons: "\<exists>d rest. d < 10 \<and> fixed_digits k n = digit_char d # rest"
proof -
  obtain d rest where d: "d < 10" "dec (n div 10 ^ k) = digit_char d # rest"
    using dec_Cons by blast
  then have "fixed_digits k n =
      digit_char d # (rest @ (if k = 0 then [] else ''.'' @ frac_digits k (n mod 10 ^ k)))"
    by (simp add: fixed_digits_def)
  with d show ?thesis by blast
qed

lemma format_f_not_Sleeping: "format_f k x \<noteq> ''Sleeping''"
proof (cases x)
  case PNaN
  then show ?thesis by simp
next
  case (PInf neg)
  then show ?thesis by simp
next
  case PNegZero
  then show ?thesis by simp
next
  case (PFin q)
  obtain d rest where d: "d < 10"
    "fixed_digits k (nat (round_half_even (\<bar>q\<bar> * 10 ^ k))) = digit_char d # rest"
    using fixed_digits_Cons by blast
  show ?thesis
  proof (cases "q < 0")
    case True
    with PFin show ?thesis by simp
  next
    case False
    with PFin d have "format_f k x = digit_char d # rest" by simp
    with digit_char_not_S [OF d(1)] show ?thesis by auto
  qed
qed

section \<open>Facts about the core table\<close>

(* table loop lemmas *)
lemma setItem_rowCount [simp]: "rowCount (setItem i c x t) = rowCount t"
  by (simp add: setItem_def)
lemma setItem_columnCount [simp]: "columnCount (setItem i c x t) = columnCount t"
  by (simp add: setItem_def)

lemma item_setItem:
  "item (setItem i c x t) j d =
     (if i < rowCount t \<and> c < columnCount t \<and> j = i \<and> d = c then Some x else item t j d)"
  by (simp add: setItem_def)

lemma core_table_row_rowCount [simp]: "rowCount (core_table_row i core t) = rowCount t"
  by (simp add: core_table_row_def Let_def)
lemma core_table_row_columnCount [simp]: "columnCount (core_table_row i core t) = columnCount t"
  by (simp add: core_table_row_def Let_def)

lemma core_table_row_other:
  "j \<noteq> i \<Longrightarrow> item (core_table_row i core t) j d = item t j d"
  by (simp add: core_table_row_def Let_def item_setItem)

lemma core_table_row_status:
  "i < rowCount t \<Longrightarrow> Suc 0 < columnCount t \<Longrightarrow>
   item (core_table_row i core t) i (Suc 0) =
     Some (if truthy (disabled core) then ''Disabled''
           else if truthy (sleeping core) then ''Sleeping''
           else fmt 0 (frequency core))"
  by (simp add: core_table_row_def Let_def item_setItem)

lemma core_table_loop_rowCount [simp]: "rowCount (core_table_loop i cs t) = rowCount t"
  by (induction cs arbitrary: i t) auto
lemma core_table_loop_columnCount [simp]: "columnCount (core_table_loop i cs t) = columnCount t"
  by (induction cs arbitrary: i t) auto

lemma core_table_loop_before:
  "j < i \<Longrightarrow> item (core_table_loop i cs t) j d = item t j d"
  by (induction cs arbitrary: i t) (auto simp: core_table_row_other)

lemma core_table_loop_status:
  "k < length cs \<Longrightarrow> i + length cs \<le> rowCount t \<Longrightarrow> Suc 0 < columnCount t \<Longrightarrow>
   item (core_table_loop i cs t) (i + k) (Suc 0) =
     Some (if truthy (disabled (cs ! k)) then ''Disabled''
           else if truthy (sleeping (cs ! k)) then ''Sleeping''
           else fmt 0 (frequency (cs ! k)))"
proof (induction cs arbitrary: i k t)
  case Nil
  then show ?case by simp
next
  case (Cons c cs)
  show ?case
  proof (cases k)
    case 0
    have "item (core_table_loop (Suc i) cs (core_table_row i c t)) i (Suc 0) =
          item (core_table_row i c t) i (Suc 0)"
      by (rule core_table_loop_before) simp
    with 0 Cons.prems show ?thesis by (simp add: core_table_row_status)
  next
    case (Suc k')
    with Cons.prems have "k' < length cs" "Suc i + length cs \<le> rowCount (core_table_row i c t)"
      "Suc 0 < columnCount (core_table_row i c t)" by simp_all
    from Cons.IH [OF this] Suc show ?thesis by simp
  qed
qed

section \<open>Facts about the blocks of \<^verbatim>\<open>update_data\<close>\<close>

lemma stats_block_keeps [simp]:
  "lib (stats_block st g) = lib g" "core_table (stats_block st g) = core_table g"
  by (simp_all add: stats_block_def)

lemma memory_block_keeps [simp]:
  "lib (memory_block m g) = lib g" "core_table (memory_block m g) = core_table g"
  by (simp_all add: memory_block_def)

lemma power_block_keeps [simp]:
  "lib (power_block p g) = lib g" "core_table (power_block p g) = core_table g"
  by (simp_all add: power_block_def)

lemma graphics_block_keeps [simp]:
  "lib (graphics_block gr g) = lib g" "core_table (graphics_block gr g) = core_table g"
  by (simp_all add: graphics_block_def)

lemma constraints_block_keeps:
  "constraints_block c g = (e, g') \<Longrightarrow> lib g' = lib g \<and> core_table g' = core_table g"
  by (auto simp: constraints_block_def Let_def split: sum.splits)

lemma update_data_accepted:
  assumes "read_data f 32 (lib g) = (Inr (Some cs, Some c, Some m, Some p, Some gr, Some st), l)"
    and "cs \<noteq> []"
  shows "update_data f g =
     (case constraints_block c
             (stats_block st
                (g\<lparr>lib := l,
                   core_table := core_table_loop 0 cs (setRowCount (length cs) (core_table g))\<rparr>)) of
        (Some e, g') \<Rightarrow> (Some e, g')
      | (None, g') \<Rightarrow> (None, graphics_block gr (power_block p (memory_block m g'))))"
  using assms by (simp add: update_data_def Let_def split: prod.split option.split)

lemma update_data_skipped:
  assumes "read_data f 32 (lib g) = (Inr all_None, l)"
  shows "update_data f g = (None, g\<lparr>lib := l\<rparr>)"
  using assms by (simp add: update_data_def all_None_def)

section \<open>Facts about an accepted poll\<close>

lemma read_data_Some:
  assumes "read_data f max_cores s = (Inr (Some cs, rest), l)"
  shows "0 < int_of_c_int (r_num_cores (f (word_of_int max_cores)))"
    and "0 \<le> max_cores"
    and "cs = take (nat (int_of_c_int (r_num_cores (f (word_of_int max_cores)))))
                   (map (r_cores (f (word_of_int max_cores))) [0..<nat max_cores])"
    and "rest = (Some (r_constraints (f (word_of_int max_cores))),
                 Some (r_memory (f (word_of_int max_cores))),
                 Some (r_power (f (word_of_int max_cores))),
                 Some (r_graphics (f (word_of_int max_cores))),
                 Some (r_stats (f (word_of_int max_cores))))"
  using assms by (auto simp: read_data_def Let_def all_None_def split: if_splits)

lemma read_data_32_nonempty:
  assumes "read_data f 32 s = (Inr (Some cs, rest), l)"
  shows "cs \<noteq> []"
proof -
  from read_data_Some(1,3) [OF assms]
  have "length cs = min (nat (int_of_c_int (r_num_cores (f (word_of_int 32))))) 32"
    and "0 < int_of_c_int (r_num_cores (f (word_of_int 32)))"
    by simp_all
  then have "0 < length cs" by simp
  then show ?thesis by auto
qed

text \<open>What a poll of the ready wrapper returns, without spelling out the buffer.\<close>

lemma read_data_ready:
  assumes "resolves Sym_ryzen_read_data s" "initialized s"
    and "0 < int_of_c_int (r_num_cores (f 32))"
  shows "\<exists>cs. read_data f 32 s =
            (Inr (Some cs, Some (r_constraints (f 32)), Some (r_memory (f 32)),
                  Some (r_power (f 32)), Some (r_graphics (f 32)), Some (r_stats (f 32))),
             s\<lparr>calls := calls s @ [Ryzen_read_data 32]\<rparr>) \<and>
          length cs = min (nat (int_of_c_int (r_num_cores (f 32)))) 32 \<and>
          (\<forall>i<length cs. cs ! i = r_cores (f 32) i)"
  using assms by (simp add: read_data_def Let_def sizeof_CoreData_def)

section \<open>Evaluating the formats\<close>

lemma float_4350: "float_of_c_float 0x4587F000 = PFin 4350"
  by (simp add: float_of_c_float_def signed_fin_def pow2_def)


lemma float_nan: "float_of_c_float 0x7FC00000 = PNaN"
  by (simp add: float_of_c_float_def)

lemma float_100: "float_of_c_float 0x42C80000 = PFin 100"
  by (simp add: float_of_c_float_def signed_fin_def pow2_def)


lemma digit_char_values:
  "digit_char 0 = CHR ''0''" "digit_char 1 = CHR ''1''" "digit_char 2 = CHR ''2''"
  "digit_char 3 = CHR ''3''" "digit_char 4 = CHR ''4''" "digit_char 5 = CHR ''5''"
  "digit_char 6 = CHR ''6''" "digit_char 7 = CHR ''7''" "digit_char 8 = CHR ''8''"
  "digit_char 9 = CHR ''9''"
  by (simp_all add: digit_char_def char_of_def bit_0)

lemma dec_small: "n < 10 \<Longrightarrow> dec n = [digit_char n]"
  by (subst dec.simps) simp

lemma dec_large: "10 \<le> n \<Longrightarrow> dec n = dec (n div 10) @ [digit_char (n mod 10)]"
  by (subst dec.simps) simp

lemma dec_4350: "dec 4350 = ''4350''"
  by (simp add: dec_small dec_large digit_char_values)

lemma round_half_even_eq:
  assumes "of_int n - 1 / 2 < q" and "q < of_int n + 1 / 2"
  shows "round_half_even q = n"
proof (cases "of_int n \<le> q")
  case True
  with assms have "\<lfloor>q\<rfloor> = n" by (simp add: floor_eq_iff)
  with assms True show ?thesis by (simp add: round_half_even_def Let_def)
next
  case False
  with assms have "\<lfloor>q\<rfloor> = n - 1" by (simp add: floor_eq_iff)
  with assms False show ?thesis by (simp add: round_half_even_def Let_def)
qed

lemma round_4350: "round_half_even 4350 = 4350"
  by (rule round_half_even_eq) simp_all



lemma format_PFin_4350: "format_f 0 (PFin 4350) = ''4350''"
  by (simp add: fixed_digits_def round_4350 dec_small dec_large digit_char_values)



lemma update_data_table:
  assumes "read_data f 32 (lib g) = (Inr (Some cs, rest), l)"
  shows "core_table (snd (update_data f g)) =
           core_table_loop 0 cs (setRowCount (length cs) (core_table g))"
proof -
  from read_data_Some(4) [OF assms] obtain c m p gr st where
    rest: "rest = (Some c, Some m, Some p, Some gr, Some st)" by blast
  have ne: "cs \<noteq> []" by (rule read_data_32_nonempty [OF assms])
  let ?g1 = "stats_block st
                (g\<lparr>lib := l,
                   core_table := core_table_loop 0 cs (setRowCount (length cs) (core_table g))\<rparr>)"
  obtain e g' where cb: "constraints_block c ?g1 = (e, g')" by (cases "constraints_block c ?g1")
  from constraints_block_keeps [OF cb] have k: "core_table g' = core_table ?g1" by simp
  from assms rest have rd:
    "read_data f 32 (lib g) = (Inr (Some cs, Some c, Some m, Some p, Some gr, Some st), l)"
    by simp
  have "core_table (snd (update_data f g)) = core_table g'"
    unfolding update_data_accepted [OF rd ne] cb by (cases e) simp_all
  with k show ?thesis by simp
qed

lemma setRowCount_counts [simp]:
  "rowCount (setRowCount n t) = n" "columnCount (setRowCount n t) = columnCount t"
  by (simp_all add: setRowCount_def)

lemma update_data_status:
  assumes "read_data f 32 (lib g) = (Inr (Some cs, rest), l)"
    and "columnCount (core_table g) = 8" and "i < length cs"
  shows "item (core_table (snd (update_data f g))) i (Suc 0) =
     Some (if truthy (disabled (cs ! i)) then ''Disabled''
           else if truthy (sleeping (cs ! i)) then ''Sleeping''
           else fmt 0 (frequency (cs ! i)))"
  using core_table_loop_status [of i cs 0 "setRowCount (length cs) (core_table g)"] assms
  by (simp add: update_data_table [OF assms(1)])

lemma example_window_lib: "lib example_window = example_ready"
  by (simp add: example_window_def)

lemma example_window_columns: "columnCount (core_table example_window) = 8"
  by (simp add: example_window_def init_ui_def)

lemma scenario_num_cores: "int_of_c_int (r_num_cores (scenario_answer 32)) = 8"
  by (simp add: scenario_answer_def int_of_c_int_def)

lemma scenario_flags:
  "\<not> truthy (disabled (scenario_core 0))" "\<not> truthy (sleeping (scenario_core 0))"
  "\<not> truthy (disabled (scenario_core 5))" "truthy (sleeping (scenario_core 5))"
  "truthy (disabled (scenario_core 6))" "\<not> truthy (sleeping (scenario_core 6))"
  "truthy (disabled (scenario_core 7))" "truthy (sleeping (scenario_core 7))"
  by (simp_all add: scenario_core_def zero_CoreData_def truthy_def)

lemma scenario_frequency: "frequency (scenario_core i) = 0x4587F000"
  by (simp add: scenario_core_def)

lemma scenario_read:
  "\<exists>cs rest l. read_data scenario_answer 32 (lib example_window) = (Inr (Some cs, rest), l) \<and>
      length cs = 8 \<and> (\<forall>i<8. cs ! i = scenario_core i)"
proof -
  from read_data_ready [of example_ready scenario_answer]
  obtain cs where
    "read_data scenario_answer 32 example_ready =
       (Inr (Some cs, Some (r_constraints (scenario_answer 32)),
             Some (r_memory (scenario_answer 32)), Some (r_power (scenario_answer 32)),
             Some (r_graphics (scenario_answer 32)), Some (r_stats (scenario_answer 32))),
        example_ready\<lparr>calls := calls example_ready @ [Ryzen_read_data 32]\<rparr>)"
    "length cs = min (nat (int_of_c_int (r_num_cores (scenario_answer 32)))) 32"
    "\<forall>i<length cs. cs ! i = r_cores (scenario_answer 32) i"
    using example_ready_resolves [of Sym_ryzen_read_data] scenario_num_cores
    by (auto simp: example_ready_eq)
  moreover have "r_cores (scenario_answer 32) = scenario_core"
    by (simp add: scenario_answer_def)
  ultimately show ?thesis
    using scenario_num_cores by (auto simp: example_window_lib)
qed

lemma fmt_4350: "format_f 0 (float_of_c_float 0x4587F000) = ''4350''"
  by (simp only: float_4350 format_PFin_4350)

section \<open>The core table\<close>

text \<open>
  C1.  When \<^verbatim>\<open>read_data\<close> returns a core list, which it does exactly for a positive
  core count, and the table has the eight columns \<^verbatim>\<open>init_ui\<close> gives it, then after
  \<^verbatim>\<open>update_data\<close> the table has as many rows as the list has records, and the
  frequency cell (column 1) of row \<open>i\<close> reads \<^verbatim>\<open>Disabled\<close> when the core's
  \<open>disabled\<close> flag is set, \<^verbatim>\<open>Sleeping\<close> when it is not and the \<open>sleeping\<close> flag is
  set, and otherwise the frequency formatted with no decimals: for a finite frequency
  that is the sign and the decimal digits of an integer no further than one half from
  the frequency's magnitude.  This holds whether or not a later statement of the routine
  raises.
\<close>

theorem core_table_shows_cores:
  assumes "read_data f 32 (lib g) = (Inr (Some cs, rest), l)"
    and "columnCount (core_table g) = 8"
  shows "rowCount (core_table (snd (update_data f g))) = length cs \<and>
     (\<forall>i<length cs.
        (truthy (disabled (cs ! i)) \<longrightarrow>
           item (core_table (snd (update_data f g))) i 1 = Some ''Disabled'') \<and>
        (\<not> truthy (disabled (cs ! i)) \<and> truthy (sleeping (cs ! i)) \<longrightarrow>
           item (core_table (snd (update_data f g))) i 1 = Some ''Sleeping'') \<and>
        (\<not> truthy (disabled (cs ! i)) \<and> \<not> truthy (sleeping (cs ! i)) \<longrightarrow>
           item (core_table (snd (update_data f g))) i 1 =
             Some (format_f 0 (float_of_c_float (frequency (cs ! i)))) \<and>
           (\<forall>q. float_of_c_float (frequency (cs ! i)) = PFin q \<longrightarrow>
                item (core_table (snd (update_data f g))) i 1 =
                  Some ((if q < 0 then ''-'' else []) @ dec (nat (round_half_even \<bar>q\<bar>))) \<and>
                \<bar>of_int (round_half_even \<bar>q\<bar>) - \<bar>q\<bar>\<bar> \<le> 1 / 2)))"
proof (intro conjI allI impI)
  show "rowCount (core_table (snd (update_data f g))) = length cs"
    by (simp add: update_data_table [OF assms(1)])
next
  fix i assume "i < length cs" "truthy (disabled (cs ! i))"
  then show "item (core_table (snd (update_data f g))) i 1 = Some ''Disabled''"
    using update_data_status [OF assms] by simp
next
  fix i assume "i < length cs" "\<not> truthy (disabled (cs ! i)) \<and> truthy (sleeping (cs ! i))"
  then show "item (core_table (snd (update_data f g))) i 1 = Some ''Sleeping''"
    using update_data_status [OF assms] by simp
next
  fix i assume "i < length cs" "\<not> truthy (disabled (cs ! i)) \<and> \<not> truthy (sleeping (cs ! i))"
  then show "item (core_table (snd (update_data f g))) i 1 =
             Some (format_f 0 (float_of_c_float (frequency (cs ! i))))"
    using update_data_status [OF assms] by (simp add: fmt_def)
next
  fix i q assume "i < length cs" "\<not> truthy (disabled (cs ! i)) \<and> \<not> truthy (sleeping (cs ! i))"
    "float_of_c_float (frequency (cs ! i)) = PFin q"
  then show "item (core_table (snd (update_data f g))) i 1 =
                  Some ((if q < 0 then ''-'' else []) @ dec (nat (round_half_even \<bar>q\<bar>)))"
    using update_data_status [OF assms] by (simp add: fmt_def fixed_digits_0)
next
  fix q :: rat
  show "\<bar>of_int (round_half_even \<bar>q\<bar>) - \<bar>q\<bar>\<bar> \<le> 1 / 2" by (rule round_half_even_near)
qed

theorem core_table_shows_cores_witness:
  "\<exists>cs rest l. read_data scenario_answer 32 (lib example_window) = (Inr (Some cs, rest), l) \<and>
     columnCount (core_table example_window) = 8 \<and> length cs = 8 \<and>
     rowCount (core_table (snd (update_data scenario_answer example_window))) = 8 \<and>
     item (core_table (snd (update_data scenario_answer example_window))) 0 1 = Some ''4350'' \<and>
     item (core_table (snd (update_data scenario_answer example_window))) 5 1 =
       Some ''Sleeping'' \<and>
     item (core_table (snd (update_data scenario_answer example_window))) 6 1 =
       Some ''Disabled''"
proof -
  let ?t = "core_table (snd (update_data scenario_answer example_window))"
  from scenario_read obtain cs rest l where
    rd: "read_data scenario_answer 32 (lib example_window) = (Inr (Some cs, rest), l)"
    and len: "length cs = 8" and nth: "\<forall>i<8. cs ! i = scenario_core i"
    by blast
  note main = core_table_shows_cores [OF rd example_window_columns]
  from main len have rows: "rowCount ?t = 8" by simp
  from nth have c0: "cs ! 0 = scenario_core 0" and c5: "cs ! 5 = scenario_core 5"
    and c6: "cs ! 6 = scenario_core 6" by simp_all
  have i0: "0 < length cs" and i5: "5 < length cs" and i6: "6 < length cs"
    using len by simp_all
  from conjunct2 [OF main, rule_format, OF i0] c0 scenario_flags
  have "item ?t 0 1 = Some (format_f 0 (float_of_c_float (frequency (scenario_core 0))))"
    by simp
  then have t0: "item ?t 0 1 = Some ''4350''"
    by (simp only: scenario_frequency fmt_4350)
  from conjunct2 [OF main, rule_format, OF i5] c5 scenario_flags
  have t5: "item ?t 5 1 = Some ''Sleeping''" by simp
  from conjunct2 [OF main, rule_format, OF i6] c6 scenario_flags
  have t6: "item ?t 6 1 = Some ''Disabled''" by simp
  from rd len rows t0 t5 t6 example_window_columns show ?thesis by blast
qed

text \<open>
  C9.  With both flags set the frequency cell reads \<^verbatim>\<open>Disabled\<close>; it reads
  \<^verbatim>\<open>Sleeping\<close> exactly when the \<open>sleeping\<close> flag is set and the \<open>disabled\<close> flag is
  not, since no formatted frequency is the word \<^verbatim>\<open>Sleeping\<close>.
\<close>

theorem disabled_takes_precedence:
  assumes "read_data f 32 (lib g) = (Inr (Some cs, rest), l)"
    and "columnCount (core_table g) = 8" and "i < length cs"
  shows "(truthy (disabled (cs ! i)) \<and> truthy (sleeping (cs ! i)) \<longrightarrow>
            item (core_table (snd (update_data f g))) i 1 = Some ''Disabled'') \<and>
         (item (core_table (snd (update_data f g))) i 1 = Some ''Sleeping'' \<longleftrightarrow>
            truthy (sleeping (cs ! i)) \<and> \<not> truthy (disabled (cs ! i)))"
  using update_data_status [OF assms] by (auto simp: fmt_def format_f_not_Sleeping)

theorem disabled_takes_precedence_witness:
  "\<exists>cs rest l. read_data scenario_answer 32 (lib example_window) = (Inr (Some cs, rest), l) \<and>
     columnCount (core_table example_window) = 8 \<and> 7 < length cs \<and>
     truthy (disabled (cs ! 7)) \<and> truthy (sleeping (cs ! 7)) \<and>
     item (core_table (snd (update_data scenario_answer example_window))) 7 1 =
       Some ''Disabled'' \<and>
     truthy (sleeping (cs ! 5)) \<and> \<not> truthy (disabled (cs ! 5)) \<and>
     item (core_table (snd (update_data scenario_answer example_window))) 5 1 =
       Some ''Sleeping''"
proof -
  let ?t = "core_table (snd (update_data scenario_answer example_window))"
  from scenario_read obtain cs rest l where
    rd: "read_data scenario_answer 32 (lib example_window) = (Inr (Some cs, rest), l)"
    and len: "length cs = 8" and nth: "\<forall>i<8. cs ! i = scenario_core i"
    by blast
  from nth have c5: "cs ! 5 = scenario_core 5" and c7: "cs ! 7 = scenario_core 7"
    by simp_all
  have i5: "5 < length cs" and i7: "7 < length cs" using len by simp_all
  from disabled_takes_precedence [OF rd example_window_columns i7] c7 scenario_flags
  have t7: "item ?t 7 1 = Some ''Disabled''" by simp
  from disabled_takes_precedence [OF rd example_window_columns i5] c5 scenario_flags
  have t5: "item ?t 5 1 = Some ''Sleeping''" by simp
  from c5 c7 scenario_flags have fl:
    "truthy (disabled (cs ! 7))" "truthy (sleeping (cs ! 7))"
    "truthy (sleeping (cs ! 5))" "\<not> truthy (disabled (cs ! 5))"
    by simp_all
  from rd i7 t7 t5 fl example_window_columns show ?thesis by blast
qed

section \<open>A poll that fails\<close>

text \<open>
  C3.  When \<^verbatim>\<open>read_data\<close> returns six \<^verbatim>\<open>None\<close>, as it does when the library
  reports a core count of zero or less, \<^verbatim>\<open>update_data\<close> raises nothing and leaves
  the window as it was but for the wrapper's record of the foreign call: every label,
  every progress bar and the table keep what they showed.
\<close>

theorem failed_poll_keeps_display:
  "(fst (read_data f 32 (lib g)) = Inr all_None \<longrightarrow>
      update_data f g = (None, g\<lparr>lib := snd (read_data f 32 (lib g))\<rparr>)) \<and>
   (resolves Sym_ryzen_read_data (lib g) \<and> initialized (lib g) \<and>
    int_of_c_int (r_num_cores (f 32)) \<le> 0 \<longrightarrow>
      update_data f g =
        (None, g\<lparr>lib := (lib g)\<lparr>calls := calls (lib g) @ [Ryzen_read_data 32]\<rparr>\<rparr>))"
proof (intro conjI impI)
  assume "fst (read_data f 32 (lib g)) = Inr all_None"
  then have "read_data f 32 (lib g) = (Inr all_None, snd (read_data f 32 (lib g)))"
    by (cases "read_data f 32 (lib g)") simp
  then show "update_data f g = (None, g\<lparr>lib := snd (read_data f 32 (lib g))\<rparr>)"
    by (rule update_data_skipped)
next
  assume "resolves Sym_ryzen_read_data (lib g) \<and> initialized (lib g) \<and>
    int_of_c_int (r_num_cores (f 32)) \<le> 0"
  then have "read_data f 32 (lib g) =
      (Inr all_None, (lib g)\<lparr>calls := calls (lib g) @ [Ryzen_read_data 32]\<rparr>)"
    by (simp add: read_data_def Let_def sizeof_CoreData_def)
  then show "update_data f g =
        (None, g\<lparr>lib := (lib g)\<lparr>calls := calls (lib g) @ [Ryzen_read_data 32]\<rparr>\<rparr>)"
    by (rule update_data_skipped)
qed

theorem failed_poll_keeps_display_witness:
  "resolves Sym_ryzen_read_data (lib example_shown) \<and> initialized (lib example_shown) \<and>
   int_of_c_int (r_num_cores (example_answer (- 1) 32)) \<le> 0 \<and>
   fst (read_data (example_answer (- 1)) 32 (lib example_shown)) = Inr all_None \<and>
   update_data (example_answer (- 1)) example_shown =
     (None, example_shown\<lparr>lib := example_ready\<lparr>calls := [Ryzen_init, Ryzen_read_data 32]\<rparr>\<rparr>) \<and>
   ppt_bar (snd (update_data (example_answer (- 1)) example_shown)) = 45 \<and>
   rowCount (core_table (snd (update_data (example_answer (- 1)) example_shown))) = 8"
proof -
  have l: "lib example_shown = example_ready"
    by (simp add: example_shown_def example_window_def)
  have r: "resolves Sym_ryzen_read_data (lib example_shown)"
    by (simp add: l example_ready_resolves)
  have i: "initialized (lib example_shown)" by (simp add: l example_ready_eq)
  have n: "int_of_c_int (r_num_cores (example_answer (- 1) 32)) \<le> 0"
    by (simp add: example_answer_def int_of_c_int_def)
  from failed_poll_keeps_display [of "example_answer (- 1)" example_shown] r i n
  have u: "update_data (example_answer (- 1)) example_shown =
      (None, example_shown\<lparr>lib := (lib example_shown)
         \<lparr>calls := calls (lib example_shown) @ [Ryzen_read_data 32]\<rparr>\<rparr>)"
    by blast
  then have u': "update_data (example_answer (- 1)) example_shown =
     (None, example_shown\<lparr>lib := example_ready\<lparr>calls := [Ryzen_init, Ryzen_read_data 32]\<rparr>\<rparr>)"
    by (simp add: l example_ready_eq)
  have a: "fst (read_data (example_answer (- 1)) 32 (lib example_shown)) = Inr all_None"
    using r i n by (simp add: read_data_def Let_def sizeof_CoreData_def)
  have b: "ppt_bar (snd (update_data (example_answer (- 1)) example_shown)) = 45"
    unfolding u' by (simp add: example_shown_def)
  have c: "rowCount (core_table (snd (update_data (example_answer (- 1)) example_shown))) = 8"
    unfolding u' by (simp add: example_shown_def)
  show ?thesis using r i n a u' b c by blast
qed

section \<open>The constraint bars\<close>

lemma constraints_block_frame:
  "constraints_block c g = (e, g') \<Longrightarrow>
   g' = g\<lparr>peak_temp_con_value := peak_temp_con_value g',
          ppt_bar := ppt_bar g', ppt_value := ppt_value g',
          tdc_bar := tdc_bar g', tdc_value := tdc_value g',
          edc_bar := edc_bar g', edc_value := edc_value g',
          thm_bar := thm_bar g', thm_value := thm_value g'\<rparr>"
  by (auto simp: constraints_block_def Let_def split: sum.splits)



lemma constraints_block_ppt_raises:
  assumes "set_bar (ConstraintsData.ppt_value c) (ppt_limit c) (ppt_bar g) = Inl e"
  shows "fst (constraints_block c g) = Some e"
  using assms by (simp add: constraints_block_def Let_def)


lemma update_data_fields:
  assumes rd: "read_data f 32 (lib g) =
                 (Inr (Some cs, Some c, Some m, Some p, Some gr, Some st), l)"
  defines "g1 \<equiv> stats_block st
                   (g\<lparr>lib := l,
                      core_table :=
                        core_table_loop 0 cs (setRowCount (length cs) (core_table g))\<rparr>)"
  shows "fst (update_data f g) = fst (constraints_block c g1)"
    and "ppt_bar (snd (update_data f g)) = ppt_bar (snd (constraints_block c g1))"
    and "ppt_value (snd (update_data f g)) = ppt_value (snd (constraints_block c g1))"
    and "tdc_bar (snd (update_data f g)) = tdc_bar (snd (constraints_block c g1))"
    and "edc_bar (snd (update_data f g)) = edc_bar (snd (constraints_block c g1))"
    and "thm_bar (snd (update_data f g)) = thm_bar (snd (constraints_block c g1))"
    and "peak_freq_value (snd (update_data f g)) = peak_freq_value g1"
    and "peak_temp_value (snd (update_data f g)) = peak_temp_value g1"
    and "peak_volt_value (snd (update_data f g)) = peak_volt_value g1"
    and "avg_volt_value (snd (update_data f g)) = avg_volt_value g1"
    and "avg_cc6_value (snd (update_data f g)) = avg_cc6_value g1"
    and "total_core_power_value (snd (update_data f g)) = total_core_power_value g1"
    and "smu_peak_volt_value (snd (update_data f g)) = smu_peak_volt_value g1"
    and "pkg_cc6_value (snd (update_data f g)) = pkg_cc6_value g1"
proof -
  have ne: "cs \<noteq> []" by (rule read_data_32_nonempty [OF rd])
  obtain e g' where cb: "constraints_block c g1 = (e, g')" by (cases "constraints_block c g1")
  note fr = constraints_block_frame [OF cb]
  have u: "update_data f g =
     (case e of Some x \<Rightarrow> (Some x, g')
      | None \<Rightarrow> (None, graphics_block gr (power_block p (memory_block m g'))))"
    using update_data_accepted [OF rd ne] cb unfolding g1_def by (cases e) simp_all
  have keep:
    "peak_freq_value g' = peak_freq_value g1" "peak_temp_value g' = peak_temp_value g1"
    "peak_volt_value g' = peak_volt_value g1" "avg_volt_value g' = avg_volt_value g1"
    "avg_cc6_value g' = avg_cc6_value g1"
    "total_core_power_value g' = total_core_power_value g1"
    "smu_peak_volt_value g' = smu_peak_volt_value g1" "pkg_cc6_value g' = pkg_cc6_value g1"
    by (subst fr, simp)+
  show "fst (update_data f g) = fst (constraints_block c g1)"
    unfolding u cb by (cases e) simp_all
  show "ppt_bar (snd (update_data f g)) = ppt_bar (snd (constraints_block c g1))"
    unfolding u cb
    by (cases e) (simp_all add: memory_block_def power_block_def graphics_block_def)
  show "ppt_value (snd (update_data f g)) = ppt_value (snd (constraints_block c g1))"
    unfolding u cb
    by (cases e) (simp_all add: memory_block_def power_block_def graphics_block_def)
  show "tdc_bar (snd (update_data f g)) = tdc_bar (snd (constraints_block c g1))"
    unfolding u cb
    by (cases e) (simp_all add: memory_block_def power_block_def graphics_block_def)
  show "edc_bar (snd (update_data f g)) = edc_bar (snd (constraints_block c g1))"
    unfolding u cb
    by (cases e) (simp_all add: memory_block_def power_block_def graphics_block_def)
  show "thm_bar (snd (update_data f g)) = thm_bar (snd (constraints_block c g1))"
    unfolding u cb
    by (cases e) (simp_all add: memory_block_def power_block_def graphics_block_def)
  show "peak_freq_value (snd (update_data f g)) = peak_freq_value g1"
    unfolding u keep(1) [symmetric]
    by (cases e) (simp_all add: memory_block_def power_block_def graphics_block_def)
  show "peak_temp_value (snd (update_data f g)) = peak_temp_value g1"
    unfolding u keep(2) [symmetric]
    by (cases e) (simp_all add: memory_block_def power_block_def graphics_block_def)
  show "peak_volt_value (snd (update_data f g)) = peak_volt_value g1"
    unfolding u keep(3) [symmetric]
    by (cases e) (simp_all add: memory_block_def power_block_def graphics_block_def)
  show "avg_volt_value (snd (update_data f g)) = avg_volt_value g1"
    unfolding u keep(4) [symmetric]
    by (cases e) (simp_all add: memory_block_def power_block_def graphics_block_def)
  show "avg_cc6_value (snd (update_data f g)) = avg_cc6_value g1"
    unfolding u keep(5) [symmetric]
    by (cases e) (simp_all add: memory_block_def power_block_def graphics_block_def)
  show "total_core_power_value (snd (update_data f g)) = total_core_power_value g1"
    unfolding u keep(6) [symmetric]
    by (cases e) (simp_all add: memory_block_def power_block_def graphics_block_def)
  show "smu_peak_volt_value (snd (update_data f g)) = smu_peak_volt_value g1"
    unfolding u keep(7) [symmetric]
    by (cases e) (simp_all add: memory_block_def power_block_def graphics_block_def)
  show "pkg_cc6_value (snd (update_data f g)) = pkg_cc6_value g1"
    unfolding u keep(8) [symmetric]
    by (cases e) (simp_all add: memory_block_def power_block_def graphics_block_def)
qed






lemma ready_poll:
  assumes "0 < int_of_c_int (r_num_cores (f 32))"
  shows "\<exists>cs l. read_data f 32 (lib example_window) =
           (Inr (Some cs, Some (r_constraints (f 32)), Some (r_memory (f 32)),
                 Some (r_power (f 32)), Some (r_graphics (f 32)), Some (r_stats (f 32))), l)"
proof -
  have "resolves Sym_ryzen_read_data example_ready" by (rule example_ready_resolves)
  moreover have "initialized example_ready" by (simp add: example_ready_eq)
  ultimately show ?thesis
    using read_data_ready [of example_ready f] assms unfolding example_window_lib by blast
qed




section \<open>Not-a-number\<close>

lemma nan_stats_answer_fields:
  "int_of_c_int (r_num_cores (nan_stats_answer 32)) = 8"
  "r_stats (nan_stats_answer 32) = nan_CalculatedStats"
  by (simp_all add: nan_stats_answer_def scenario_answer_def int_of_c_int_def)

lemma fmt_nan: "fmt k c_float_nan = ''nan''"
  by (simp add: fmt_def c_float_nan_def float_nan)

text \<open>
  C4.  What the routine shows for aggregates that are all not-a-number: the seven labels
  set by a plain format read \<^verbatim>\<open>nan\<close> with their unit, and only the package CC6
  label, which the source guards with a self-inequality test, reads \<^verbatim>\<open>--\<close>.
\<close>

theorem nan_aggregates_print_nan:
  "peak_freq_value (snd (update_data nan_stats_answer example_window)) = ''nan MHz'' \<and>
   peak_temp_value (snd (update_data nan_stats_answer example_window)) =
     ''nan '' @ degree @ ''C'' \<and>
   peak_volt_value (snd (update_data nan_stats_answer example_window)) = ''nan V'' \<and>
   avg_volt_value (snd (update_data nan_stats_answer example_window)) = ''nan V'' \<and>
   avg_cc6_value (snd (update_data nan_stats_answer example_window)) = ''nan %'' \<and>
   total_core_power_value (snd (update_data nan_stats_answer example_window)) = ''nan W'' \<and>
   smu_peak_volt_value (snd (update_data nan_stats_answer example_window)) = ''nan V'' \<and>
   pkg_cc6_value (snd (update_data nan_stats_answer example_window)) = ''--''"
proof -
  from ready_poll [of nan_stats_answer] obtain cs l where
    rd: "read_data nan_stats_answer 32 (lib example_window) =
           (Inr (Some cs, Some (r_constraints (nan_stats_answer 32)),
                 Some (r_memory (nan_stats_answer 32)), Some (r_power (nan_stats_answer 32)),
                 Some (r_graphics (nan_stats_answer 32)), Some nan_CalculatedStats), l)"
    using nan_stats_answer_fields by auto
  have ne: "float_ne (float_of_c_float c_float_nan) (float_of_c_float c_float_nan)"
    by (simp add: c_float_nan_def float_nan)
  show ?thesis
    unfolding update_data_fields(7-14) [OF rd]
    by (simp add: stats_block_def nan_CalculatedStats_def fmt_nan ne)
qed

lemma nan_ppt_answer_fields:
  "int_of_c_int (r_num_cores (nan_ppt_answer 32)) = 8"
  "ConstraintsData.ppt_value (r_constraints (nan_ppt_answer 32)) = c_float_nan"
  "ppt_limit (r_constraints (nan_ppt_answer 32)) = c_float_100"
  by (simp_all add: nan_ppt_answer_def scenario_answer_def int_of_c_int_def)

lemma bar_percent_nan_value: "bar_percent c_float_nan c_float_100 = Inl ValueError"
  by (simp add: bar_percent_def c_float_nan_def c_float_100_def float_nan float_100
        float_div_def float_mul_int_def)

lemma set_bar_nan_limit: "set_bar v c_float_nan bar = Inr 0"
  by (simp add: set_bar_def bar_percent_def c_float_nan_def float_nan setValue_def)

text \<open>
  C5.  What the routine does with a not-a-number among the constraints: with a package
  power that is a not-a-number against a limit of 100, \<^verbatim>\<open>int\<close> raises
  \<^verbatim>\<open>ValueError\<close> and the routine ends with it; with a limit that is a not-a-number the
  bar is set to 0.
\<close>

theorem nan_constraint_value_raises:
  "fst (update_data nan_ppt_answer example_window) = Some ValueError \<and>
   bar_percent c_float_nan c_float_100 = Inl ValueError \<and>
   set_bar c_float_100 c_float_nan 45 = Inr 0"
proof -
  from ready_poll [of nan_ppt_answer] obtain cs l where
    rd: "read_data nan_ppt_answer 32 (lib example_window) =
           (Inr (Some cs, Some (r_constraints (nan_ppt_answer 32)),
                 Some (r_memory (nan_ppt_answer 32)), Some (r_power (nan_ppt_answer 32)),
                 Some (r_graphics (nan_ppt_answer 32)), Some (r_stats (nan_ppt_answer 32))), l)"
    using nan_ppt_answer_fields(1) by auto
  have sb: "\<And>bar. set_bar (ConstraintsData.ppt_value (r_constraints (nan_ppt_answer 32)))
              (ppt_limit (r_constraints (nan_ppt_answer 32))) bar = Inl ValueError"
    by (simp add: nan_ppt_answer_fields set_bar_def bar_percent_nan_value)
  have "fst (update_data nan_ppt_answer example_window) = Some ValueError"
    unfolding update_data_fields(1) [OF rd] by (rule constraints_block_ppt_raises [OF sb])
  then show ?thesis by (simp add: bar_percent_nan_value set_bar_nan_limit)
qed

end
